theory Spec2Isabelle
  imports Main
begin

section \<open>Form data, submissions and error reports\<close>

text \<open>
  A browser form arrives as a list of named entries; an entry is a string or an
  uploaded file.  \<open>parseSubmission\<close> and \<open>report\<close> are functions of the conform
  library.  The first collects the entries by name, in the order in which the
  names first occur: a name that occurs once gets its entry as value, a name that
  occurs several times gets the array of its entries.  The routes give it no intent
  name, so no entry is taken as the intent.  The second builds the result that is
  echoed to the client, from which the fields listed under \<open>hideFields\<close> are
  removed.
\<close>

record jsFile =
  size_file :: nat
  type_file :: string
  blob_file :: string

datatype formDataEntry = StringEntry string | FileEntry jsFile

type_synonym formData = "(string \<times> formDataEntry) list"

datatype formValue = Text string | FileValue jsFile | Array "formDataEntry list"

type_synonym payload = "(string \<times> formValue) list"

record submission =
  value_sub :: payload
  intent_sub :: "string option"

definition toValue :: "formDataEntry list \<Rightarrow> formValue" where
  "toValue vs =
     (case vs of
        [StringEntry s] \<Rightarrow> Text s
      | [FileEntry f] \<Rightarrow> FileValue f
      | _ \<Rightarrow> Array vs)"

fun collect :: "formData \<Rightarrow> payload" where
  "collect [] = []"
| "collect ((k, v) # rest) =
     (k, toValue (v # map snd (filter (\<lambda>(k', v'). k' = k) rest)))
       # collect (filter (\<lambda>(k', v'). k' \<noteq> k) rest)"

definition parseSubmission :: "formData \<Rightarrow> submission" where
  "parseSubmission fd = \<lparr> value_sub = collect fd, intent_sub = None \<rparr>"

text \<open>
  The error of a report has the keys \<open>formErrors\<close> and \<open>fieldErrors\<close>.  Where a
  route writes the error as an object literal, \<open>report\<close> reads these two keys of
  the object and takes an absent one as empty; a key of another name is not read.
\<close>

record error_shape =
  formErrors :: "string list"
  fieldErrors :: "(string \<times> string list) list"

datatype errorProp = FormMessages "string list" | FieldMessages "(string \<times> string list) list"

type_synonym errorObject = "(string \<times> errorProp) list"

definition errorFromObject :: "errorObject \<Rightarrow> error_shape" where
  "errorFromObject obj =
     \<lparr> formErrors = (case map_of obj ''formErrors'' of
                       Some (FormMessages ms) \<Rightarrow> ms
                     | _ \<Rightarrow> []),
       fieldErrors = (case map_of obj ''fieldErrors'' of
                        Some (FieldMessages fs) \<Rightarrow> fs
                      | _ \<Rightarrow> []) \<rparr>"

record submissionResult =
  submission_res :: submission
  error_res :: "error_shape option"

definition hide :: "string list \<Rightarrow> payload \<Rightarrow> payload" where
  "hide hideFields fd = filter (\<lambda>(k, v). k \<notin> set hideFields) fd"

definition report :: "submission \<Rightarrow> error_shape option \<Rightarrow> string list \<Rightarrow> submissionResult" where
  "report sub err hideFields =
     \<lparr> submission_res = sub \<lparr> value_sub := hide hideFields (value_sub sub) \<rparr>,
       error_res = err \<rparr>"

text \<open>The values the client gets back as the defaults of the re-rendered form.\<close>

definition echoed :: "submissionResult \<Rightarrow> string \<Rightarrow> formValue option" where
  "echoed r k = map_of (value_sub (submission_res r)) k"

section \<open>Schema validation (zod)\<close>

text \<open>
  A zod parse yields the issues found and a status: aborted (\<open>INVALID\<close>, no value),
  dirty (a value, but issues were raised) or valid.  \<open>safeParse\<close> succeeds on a
  valid status only.
\<close>

record issue =
  path :: "string list"
  message :: string

datatype 'a parsed = INVALID | DIRTY 'a | VALID 'a

type_synonym 'a parse_return = "issue list \<times> 'a parsed"

definition superRefine :: "('a \<Rightarrow> issue list) \<Rightarrow> 'a parse_return \<Rightarrow> 'a parse_return" where
  "superRefine check r =
     (case r of
        (iss, INVALID) \<Rightarrow> (iss, INVALID)
      | (iss, DIRTY v) \<Rightarrow> (iss @ check v, DIRTY v)
      | (iss, VALID v) \<Rightarrow>
          (let extra = check v
           in (iss @ extra, if extra = [] then VALID v else DIRTY v)))"

definition safeParse :: "'a parse_return \<Rightarrow> issue list + 'a" where
  "safeParse r = (case r of (iss, VALID v) \<Rightarrow> Inr v | (iss, _) \<Rightarrow> Inl iss)"

fun formatPath :: "string list \<Rightarrow> string" where
  "formatPath [] = ''''"
| "formatPath [p] = p"
| "formatPath (p # ps) = p @ ''.'' @ formatPath ps"

fun addFieldError :: "string \<Rightarrow> string \<Rightarrow> (string \<times> string list) list \<Rightarrow> (string \<times> string list) list" where
  "addFieldError n m [] = [(n, [m])]"
| "addFieldError n m ((k, ms) # rest) =
     (if k = n then (k, ms @ [m]) # rest else (k, ms) # addFieldError n m rest)"

fun groupFieldErrors :: "issue list \<Rightarrow> (string \<times> string list) list \<Rightarrow> (string \<times> string list) list" where
  "groupFieldErrors [] acc = acc"
| "groupFieldErrors (i # is) acc =
     groupFieldErrors is
       (if path i = [] then acc else addFieldError (formatPath (path i)) (message i) acc)"

definition resolveZodResult :: "issue list \<Rightarrow> error_shape option" where
  "resolveZodResult iss =
     Some \<lparr> formErrors = map message (filter (\<lambda>i. path i = []) iss),
            fieldErrors = groupFieldErrors iss [] \<rparr>"

text \<open>
  \<open>coerceZodFormData\<close> prepares form entries for the schema: an empty string counts
  as an absent entry, and a checkbox sends \<open>on\<close>.
\<close>

definition coerceString :: "formValue option \<Rightarrow> formValue option" where
  "coerceString v = (case v of Some (Text s) \<Rightarrow> (if s = [] then None else Some (Text s)) | _ \<Rightarrow> v)"

definition invalidType :: "string \<Rightarrow> string \<Rightarrow> issue" where
  "invalidType k msg = \<lparr> path = [k], message = msg \<rparr>"

text \<open>\<open>z.string().optional()\<close> on the entry \<open>k\<close>.\<close>

definition optionalString :: "string \<Rightarrow> payload \<Rightarrow> (string option) parse_return" where
  "optionalString k fd =
     (case coerceString (map_of fd k) of
        None \<Rightarrow> ([], VALID None)
      | Some (Text s) \<Rightarrow> ([], VALID (Some s))
      | Some (FileValue f) \<Rightarrow> ([invalidType k ''Expected string, received object''], INVALID)
      | Some (Array vs) \<Rightarrow> ([invalidType k ''Expected string, received array''], INVALID))"

text \<open>\<open>z.boolean().optional()\<close> on the entry \<open>k\<close>.\<close>

definition optionalBoolean :: "string \<Rightarrow> payload \<Rightarrow> (bool option) parse_return" where
  "optionalBoolean k fd =
     (case coerceString (map_of fd k) of
        None \<Rightarrow> ([], VALID None)
      | Some (Text s) \<Rightarrow>
          (if s = ''on'' then ([], VALID (Some True))
           else ([invalidType k ''Expected boolean, received string''], INVALID))
      | Some (FileValue f) \<Rightarrow> ([invalidType k ''Expected boolean, received object''], INVALID)
      | Some (Array vs) \<Rightarrow> ([invalidType k ''Expected boolean, received array''], INVALID))"

text \<open>\<open>z.boolean({ required_error })\<close> on the entry \<open>k\<close>.\<close>

definition requiredBoolean :: "string \<Rightarrow> string \<Rightarrow> payload \<Rightarrow> bool parse_return" where
  "requiredBoolean k required_error fd =
     (case coerceString (map_of fd k) of
        None \<Rightarrow> ([invalidType k required_error], INVALID)
      | Some (Text s) \<Rightarrow>
          (if s = ''on'' then ([], VALID True)
           else ([invalidType k ''Expected boolean, received string''], INVALID))
      | Some (FileValue f) \<Rightarrow> ([invalidType k ''Expected boolean, received object''], INVALID)
      | Some (Array vs) \<Rightarrow> ([invalidType k ''Expected boolean, received array''], INVALID))"

text \<open>
  A field schema imported from \<open>user-validation.ts\<close> (\<open>UsernameSchema\<close>,
  \<open>NameSchema\<close>, \<open>PasswordSchema\<close>) is a parameter: it maps the coerced entry to its
  messages and a status.  \<open>field\<close> runs it on the entry \<open>k\<close> of an object and puts
  the messages under the path \<open>[k]\<close>.
\<close>

type_synonym fieldSchema = "formValue option \<Rightarrow> string list \<times> string parsed"

definition field :: "fieldSchema \<Rightarrow> string \<Rightarrow> payload \<Rightarrow> string parse_return" where
  "field schema k fd =
     (case schema (coerceString (map_of fd k)) of
        (msgs, st) \<Rightarrow> (map (\<lambda>m. \<lparr> path = [k], message = m \<rparr>) msgs, st))"

text \<open>Merging two members of an object (or the two sides of an intersection).\<close>

definition both :: "'a parse_return \<Rightarrow> 'b parse_return \<Rightarrow> ('a \<times> 'b) parse_return" where
  "both l r =
     (case (l, r) of
        ((il, INVALID), (ir, _)) \<Rightarrow> (il @ ir, INVALID)
      | ((il, _), (ir, INVALID)) \<Rightarrow> (il @ ir, INVALID)
      | ((il, VALID a), (ir, VALID b)) \<Rightarrow> (il @ ir, VALID (a, b))
      | ((il, VALID a), (ir, DIRTY b)) \<Rightarrow> (il @ ir, DIRTY (a, b))
      | ((il, DIRTY a), (ir, VALID b)) \<Rightarrow> (il @ ir, DIRTY (a, b))
      | ((il, DIRTY a), (ir, DIRTY b)) \<Rightarrow> (il @ ir, DIRTY (a, b)))"

definition mapParsed :: "('a \<Rightarrow> 'b) \<Rightarrow> 'a parse_return \<Rightarrow> 'b parse_return" where
  "mapParsed f r =
     (case r of
        (iss, INVALID) \<Rightarrow> (iss, INVALID)
      | (iss, DIRTY v) \<Rightarrow> (iss, DIRTY (f v))
      | (iss, VALID v) \<Rightarrow> (iss, VALID (f v)))"

section \<open>Cookie sessions and responses\<close>

text \<open>
  Modelled from the spec: the cookie session stores of \<open>session.server.ts\<close> and
  \<open>verification.server.ts\<close>, which are not among the sources.  A session is a map
  from keys to values, decoded from the cookie of its store, and empty when the
  request has no such cookie or when \<open>getSession\<close> gets no header.
  \<open>commitSession\<close> gives the set-cookie value that holds the session, with the
  expiry it is given or none; \<open>destroySession\<close> gives the one that clears the
  cookie.
\<close>

datatype sval = SStr string | SNum int | SNull

type_synonym session = "string \<rightharpoonup> sval"

datatype store = Verification | Auth | Connection

type_synonym cookieHeader = "store \<rightharpoonup> session"

definition getSession :: "store \<Rightarrow> cookieHeader option \<Rightarrow> session" where
  "getSession st hdr =
     (case hdr of
        None \<Rightarrow> Map.empty
      | Some c \<Rightarrow> (case c st of None \<Rightarrow> Map.empty | Some s \<Rightarrow> s))"

datatype toast = Toast "string option" string string

datatype setCookie =
    CommitSession store session "nat option"
  | DestroySession store
  | ToastCookie toast

type_synonym headers = "(string \<times> setCookie) list"

definition commitSession :: "store \<Rightarrow> session \<Rightarrow> nat option \<Rightarrow> setCookie" where
  "commitSession st s expires = CommitSession st s expires"

definition destroySession :: "store \<Rightarrow> session \<Rightarrow> setCookie" where
  "destroySession st s = DestroySession st"

text \<open>
  The result that the older form library (\<open>submission.reject\<close>) hands to the
  client: the values to show again and the errors by field name.
\<close>

record legacyResult =
  initialValue_lr :: payload
  error_lr :: "(string \<times> string list) list"

datatype body =
    ResultBody submissionResult
  | LegacyBody legacyResult
  | EmptyBody

datatype response =
    Data body nat
  | Redirect string nat headers
  | PlainResponse string nat

definition redirect :: "string \<Rightarrow> headers \<Rightarrow> response" where
  "redirect url hs = Redirect url 302 hs"

text \<open>What a handler throws: a response (a redirect of a guard) or an error.\<close>

datatype thrown = Response response | Error string

record request =
  cookie :: "cookieHeader option"
  formData_req :: formData
  provider_param :: "string option"

section \<open>The database\<close>

text \<open>
  The tables the handlers read and write through the object-relational mapper.  A
  user has at most one password row, so the password table is a map from user ids
  to hashes; image rows are kept in a list, as \<open>deleteMany\<close> removes all rows of
  a user.
\<close>

record user =
  id_user :: string
  email_user :: string
  username_user :: string
  name_user :: "string option"

record userImage =
  userId_image :: string
  contentType :: string
  blob :: string

record sessionRec =
  id_session :: string
  userId_session :: string
  expirationDate :: nat

datatype vtype = Onboarding | ResetPassword

record verification =
  type_v :: vtype
  target_v :: string
  secret_v :: string
  algorithm_v :: string
  period_v :: nat
  charSet_v :: string
  expiresAt_v :: "nat option"

record db =
  users :: "user list"
  passwords :: "string \<rightharpoonup> string"
  images :: "userImage list"
  sessions :: "sessionRec list"
  verifications :: "verification list"

record password_pair =
  password :: string
  confirmPassword :: string

record signupArgs =
  email_a :: string
  username_a :: string
  name_a :: string
  password_a :: string

record connectionArgs =
  email_c :: string
  username_c :: string
  name_c :: string
  providerId_c :: string
  providerName_c :: string
  imageUrl_c :: "string option"

text \<open>
  The helpers this code imports from modules that are not part of the sources at
  hand, and the clock, are parameters of every handler.
\<close>

record env =
  now :: nat
  UsernameSchema :: fieldSchema
  NameSchema :: fieldSchema
  PasswordSchema :: fieldSchema
  PasswordAndConfirmPasswordSchema :: "payload \<Rightarrow> password_pair parse_return"
  ProviderNameSchema :: "string option \<Rightarrow> string option"
  checkHoneypot :: "formData \<Rightarrow> thrown option"
  uploadHandler :: "jsFile \<Rightarrow> formDataEntry option"
  getPasswordHash :: "string \<Rightarrow> string"
  comparePassword :: "string \<Rightarrow> string \<Rightarrow> bool"
  signup :: "db \<Rightarrow> signupArgs \<Rightarrow> string + (sessionRec \<times> db)"
  signupWithConnection :: "db \<Rightarrow> connectionArgs \<Rightarrow> string + (sessionRec \<times> db)"
  resetUserPassword :: "db \<Rightarrow> string \<Rightarrow> string \<Rightarrow> string + db"
  safeRedirect :: "string option \<Rightarrow> string"
  codeMatches :: "verification \<Rightarrow> string \<Rightarrow> bool"

section \<open>Completing a verification\<close>

definition resetPasswordUsernameSessionKey :: string where
  "resetPasswordUsernameSessionKey = ''resetPasswordUsername''"

definition onboardingEmailSessionKey :: string where
  "onboardingEmailSessionKey = ''onboardingEmail''"

record resultData =
  code_rd :: string
  type_rd :: vtype
  target_rd :: string
  redirectTo_rd :: "string option"

text \<open>\<open>handleVerification\<close> of the reset-password flow.\<close>

definition handleVerification :: "db \<Rightarrow> submission \<Rightarrow> resultData \<Rightarrow> response" where
  "handleVerification d sub rd =
     (let target = target_rd rd
      in case find (\<lambda>u. email_user u = target \<or> username_user u = target) (users d) of
           None \<Rightarrow>
             Data (ResultBody
                     (report sub
                        (Some (errorFromObject
                                 [(''fieldError'', FieldMessages [(''code'', [''Invalid code''])])]))
                        []))
                  400
         | Some u \<Rightarrow>
             (let verifySession =
                    (getSession Verification None)
                      (resetPasswordUsernameSessionKey \<mapsto> SStr (username_user u))
              in redirect ''/reset-password''
                   [(''set-cookie'', commitSession Verification verifySession None)]))"

text \<open>\<open>handleVerification\<close> of the onboarding flow.\<close>

definition handleVerification_onboarding :: "resultData \<Rightarrow> response" where
  "handleVerification_onboarding rd =
     (let verifySession =
            (getSession Verification None) (onboardingEmailSessionKey \<mapsto> SStr (target_rd rd))
      in redirect ''/onboarding''
           [(''set-cookie'', commitSession Verification verifySession None)])"

text \<open>
  Modelled from the spec: \<open>isCodeValid\<close> and \<open>validateRequest\<close> of
  \<open>verify.server.ts\<close>, which is not among the sources.  The record of the pair is
  looked up; an absent record or one with \<open>expiresAt \<le> now\<close> fails; otherwise the
  code is compared (the one-time-password computation is the parameter
  \<open>codeMatches\<close>).  A request that fails the schema or the code check gets the
  field error \<open>code: Invalid code\<close> with status 400.  On success the record is
  deleted unless its type is persistent, and the handler of the type completes the
  flow.  Only the two flow kinds whose handlers are among the sources are modelled;
  neither is persistent.
\<close>

definition isCodeValid :: "env \<Rightarrow> db \<Rightarrow> vtype \<Rightarrow> string \<Rightarrow> string \<Rightarrow> bool" where
  "isCodeValid e d t target code =
     (case find (\<lambda>v. type_v v = t \<and> target_v v = target) (verifications d) of
        None \<Rightarrow> False
      | Some v \<Rightarrow>
          (case expiresAt_v v of
             None \<Rightarrow> codeMatches e v code
           | Some t_exp \<Rightarrow> (if t_exp \<le> now e then False else codeMatches e v code)))"

definition typeOfString :: "string \<Rightarrow> vtype option" where
  "typeOfString s =
     (if s = ''onboarding'' then Some Onboarding
      else if s = ''reset-password'' then Some ResetPassword
      else None)"

definition persistent :: "vtype \<Rightarrow> bool" where
  "persistent t = False"

definition parseVerify :: "vtype list \<Rightarrow> payload \<Rightarrow> resultData option" where
  "parseVerify typeSet fd =
     (case (coerceString (map_of fd ''code''), coerceString (map_of fd ''type''),
            coerceString (map_of fd ''target''), optionalString ''redirectTo'' fd) of
        (Some (Text c), Some (Text ty), Some (Text tg), (iss, VALID r)) \<Rightarrow>
          (case typeOfString ty of
             None \<Rightarrow> None
           | Some t \<Rightarrow>
               (if t \<in> set typeSet
                then Some \<lparr> code_rd = c, type_rd = t, target_rd = tg, redirectTo_rd = r \<rparr>
                else None))
      | _ \<Rightarrow> None)"

definition deleteVerification :: "vtype \<Rightarrow> string \<Rightarrow> db \<Rightarrow> db" where
  "deleteVerification t target d =
     d \<lparr> verifications :=
           filter (\<lambda>v. \<not> (type_v v = t \<and> target_v v = target)) (verifications d) \<rparr>"

definition invalidCode :: "submission \<Rightarrow> response" where
  "invalidCode sub =
     Data (ResultBody
             (report sub
                (Some \<lparr> formErrors = [], fieldErrors = [(''code'', [''Invalid code''])] \<rparr>) []))
          400"

definition validateRequest :: "env \<Rightarrow> vtype list \<Rightarrow> db \<Rightarrow> formData \<Rightarrow> response \<times> db" where
  "validateRequest e typeSet d fd =
     (let sub = parseSubmission fd
      in case parseVerify typeSet (value_sub sub) of
           None \<Rightarrow> (invalidCode sub, d)
         | Some rd \<Rightarrow>
             (if \<not> isCodeValid e d (type_rd rd) (target_rd rd) (code_rd rd)
              then (invalidCode sub, d)
              else
                (let d' = (if persistent (type_rd rd) then d
                           else deleteVerification (type_rd rd) (target_rd rd) d)
                 in (case type_rd rd of
                       ResetPassword \<Rightarrow> handleVerification d' sub rd
                     | Onboarding \<Rightarrow> handleVerification_onboarding rd,
                     d'))))"


section \<open>Guards\<close>

text \<open>
  Modelled from the spec: \<open>getUserId\<close>, \<open>requireUserId\<close> and \<open>requireAnonymous\<close>
  of \<open>auth.server.ts\<close>, which is not among the sources.  The session cookie holds
  only the id of a persisted session; the actor is that session's user when the
  record exists, has not expired and belongs to a user, and is anonymous otherwise.  A page for
  authenticated actors sends an anonymous one to \<open>/login\<close>; an anonymous-only page
  sends an authenticated actor away, to the home page.
\<close>

definition sessionKey :: string where
  "sessionKey = ''sessionId''"

definition getUserId :: "env \<Rightarrow> db \<Rightarrow> request \<Rightarrow> string option" where
  "getUserId e d req =
     (case getSession Auth (cookie req) sessionKey of
        Some (SStr sid) \<Rightarrow>
          (case find (\<lambda>s. id_session s = sid \<and> now e < expirationDate s) (sessions d) of
             None \<Rightarrow> None
           | Some s \<Rightarrow>
               (case find (\<lambda>u. id_user u = userId_session s) (users d) of
                  None \<Rightarrow> None
                | Some u \<Rightarrow> Some (id_user u)))
      | _ \<Rightarrow> None)"

definition requireUserId :: "env \<Rightarrow> db \<Rightarrow> request \<Rightarrow> thrown + string" where
  "requireUserId e d req =
     (case getUserId e d req of
        None \<Rightarrow> Inl (Response (redirect ''/login'' []))
      | Some userId \<Rightarrow> Inr userId)"

definition requireAnonymous :: "env \<Rightarrow> db \<Rightarrow> request \<Rightarrow> thrown option" where
  "requireAnonymous e d req =
     (case getUserId e d req of
        None \<Rightarrow> None
      | Some userId \<Rightarrow> Some (Response (redirect ''/'' [])))"

text \<open>
  Modelled from the spec: \<open>redirectWithToast\<close> of \<open>toast.server.ts\<close>, which is not
  among the sources: a redirect that keeps the headers it is given and carries the
  toast in one more cookie.
\<close>

definition redirectWithToast :: "string \<Rightarrow> toast \<Rightarrow> headers \<Rightarrow> response" where
  "redirectWithToast url t hs = Redirect url 302 (hs @ [(''set-cookie'', ToastCookie t)])"

section \<open>Onboarding\<close>

record signupData =
  username_d :: string
  name_d :: string
  agreeToTermsOfServiceAndPrivacyPolicy_d :: bool
  remember_d :: "bool option"
  redirectTo_d :: "string option"
  password_d :: string
  confirmPassword_d :: string

definition agreeRequired :: string where
  "agreeRequired = ''You must agree to the terms of service and privacy policy''"

definition SignupFormSchema :: "env \<Rightarrow> payload \<Rightarrow> signupData parse_return" where
  "SignupFormSchema e fd =
     mapParsed
       (\<lambda>((u, n, a, r, t), p).
          \<lparr> username_d = u, name_d = n, agreeToTermsOfServiceAndPrivacyPolicy_d = a,
            remember_d = r, redirectTo_d = t,
            password_d = password p, confirmPassword_d = confirmPassword p \<rparr>)
       (both
          (both (field (UsernameSchema e) ''username'' fd)
             (both (field (NameSchema e) ''name'' fd)
                (both (requiredBoolean ''agreeToTermsOfServiceAndPrivacyPolicy'' agreeRequired fd)
                   (both (optionalBoolean ''remember'' fd)
                      (optionalString ''redirectTo'' fd)))))
          (PasswordAndConfirmPasswordSchema e fd))"

definition requireOnboardingEmail :: "env \<Rightarrow> db \<Rightarrow> request \<Rightarrow> thrown + string" where
  "requireOnboardingEmail e d req =
     (case requireAnonymous e d req of
        Some t \<Rightarrow> Inl t
      | None \<Rightarrow>
          (let verifySession = getSession Verification (cookie req)
           in case verifySession onboardingEmailSessionKey of
                Some (SStr email) \<Rightarrow>
                  (if email = [] then Inl (Response (redirect ''/signup'' []))
                   else Inr email)
              | _ \<Rightarrow> Inl (Response (redirect ''/signup'' []))))"

definition loader_onboarding :: "env \<Rightarrow> db \<Rightarrow> request \<Rightarrow> thrown + string" where
  "loader_onboarding e d req =
     (case requireOnboardingEmail e d req of
        Inl t \<Rightarrow> Inl t
      | Inr email \<Rightarrow> Inr email)"

definition usernameTaken :: "db \<Rightarrow> string \<Rightarrow> issue list" where
  "usernameTaken d username =
     (case find (\<lambda>u. username_user u = username) (users d) of
        Some existingUser \<Rightarrow>
          [\<lparr> path = [''username''], message = ''A user already exists with this username'' \<rparr>]
      | None \<Rightarrow> [])"

definition truthy :: "bool option \<Rightarrow> bool" where
  "truthy b = (b = Some True)"

definition action_onboarding :: "env \<Rightarrow> db \<Rightarrow> request \<Rightarrow> (thrown + response) \<times> db" where
  "action_onboarding e d req =
     (case requireOnboardingEmail e d req of
        Inl t \<Rightarrow> (Inl t, d)
      | Inr email \<Rightarrow>
          (let formData = formData_req req
           in case checkHoneypot e formData of
                Some t \<Rightarrow> (Inl t, d)
              | None \<Rightarrow>
                  (let submission = parseSubmission formData
                   in case safeParse
                             (superRefine (\<lambda>data. usernameTaken d (username_d data))
                                (SignupFormSchema e (value_sub submission))) of
                        Inl iss \<Rightarrow>
                          (Inr (Data (ResultBody (report submission (resolveZodResult iss) [])) 400), d)
                      | Inr data \<Rightarrow>
                          (case signup e d
                                  \<lparr> email_a = email, username_a = username_d data,
                                    name_a = name_d data, password_a = password_d data \<rparr> of
                             Inl err \<Rightarrow> (Inl (Error err), d)
                           | Inr (session, d') \<Rightarrow>
                               (let authSession =
                                      (getSession Auth (cookie req))
                                        (sessionKey \<mapsto> SStr (id_session session));
                                    verifySession = getSession Verification None;
                                    hs = [(''set-cookie'',
                                           commitSession Auth authSession
                                             (if truthy (remember_d data)
                                              then Some (expirationDate session) else None)),
                                          (''set-cookie'',
                                           destroySession Verification verifySession)]
                                in (Inr (redirectWithToast
                                           (safeRedirect e (redirectTo_d data))
                                           (Toast None ''Welcome'' ''Thanks for signing up!'')
                                           hs),
                                    d'))))))"

section \<open>Onboarding through a provider\<close>

definition providerIdKey :: string where
  "providerIdKey = ''providerId''"

record providerData =
  imageUrl_p :: "string option"
  username_p :: string
  name_p :: string
  agreeToTermsOfServiceAndPrivacyPolicy_p :: bool
  remember_p :: "bool option"
  redirectTo_p :: "string option"

definition SignupFormSchema_provider :: "env \<Rightarrow> payload \<Rightarrow> providerData parse_return" where
  "SignupFormSchema_provider e fd =
     mapParsed
       (\<lambda>(i, u, n, a, r, t).
          \<lparr> imageUrl_p = i, username_p = u, name_p = n,
            agreeToTermsOfServiceAndPrivacyPolicy_p = a, remember_p = r, redirectTo_p = t \<rparr>)
       (both (optionalString ''imageUrl'' fd)
          (both (field (UsernameSchema e) ''username'' fd)
             (both (field (NameSchema e) ''name'' fd)
                (both (requiredBoolean ''agreeToTermsOfServiceAndPrivacyPolicy'' agreeRequired fd)
                   (both (optionalBoolean ''remember'' fd)
                      (optionalString ''redirectTo'' fd))))))"

record requiredData =
  email_r :: string
  providerName_r :: string
  providerId_r :: string

definition requireData :: "env \<Rightarrow> db \<Rightarrow> request \<Rightarrow> thrown + requiredData" where
  "requireData e d req =
     (case requireAnonymous e d req of
        Some t \<Rightarrow> Inl t
      | None \<Rightarrow>
          (let verifySession = getSession Verification (cookie req);
               email = verifySession onboardingEmailSessionKey;
               providerId = verifySession providerIdKey
           in case (email, ProviderNameSchema e (provider_param req), providerId) of
                (Some (SStr em), Some pn, Some (SStr pid)) \<Rightarrow>
                  Inr \<lparr> email_r = em, providerName_r = pn, providerId_r = pid \<rparr>
              | _ \<Rightarrow> Inl (Response (redirect ''/signup'' []))))"

definition action_provider :: "env \<Rightarrow> db \<Rightarrow> request \<Rightarrow> (thrown + response) \<times> db" where
  "action_provider e d req =
     (case requireData e d req of
        Inl t \<Rightarrow> (Inl t, d)
      | Inr rd \<Rightarrow>
          (let formData = formData_req req;
               verifySession = getSession Verification (cookie req);
               submission = parseSubmission formData
           in case safeParse
                     (superRefine (\<lambda>data. usernameTaken d (username_p data))
                        (SignupFormSchema_provider e (value_sub submission))) of
                Inl iss \<Rightarrow>
                  (Inr (Data (ResultBody (report submission (resolveZodResult iss) [])) 400), d)
              | Inr data \<Rightarrow>
                  (case signupWithConnection e d
                          \<lparr> email_c = email_r rd, username_c = username_p data,
                            name_c = name_p data, providerId_c = providerId_r rd,
                            providerName_c = providerName_r rd,
                            imageUrl_c = imageUrl_p data \<rparr> of
                     Inl err \<Rightarrow> (Inl (Error err), d)
                   | Inr (session, d') \<Rightarrow>
                       (let authSession =
                              (getSession Auth (cookie req))
                                (sessionKey \<mapsto> SStr (id_session session));
                            hs = [(''set-cookie'',
                                   commitSession Auth authSession
                                     (if truthy (remember_p data)
                                      then Some (expirationDate session) else None)),
                                  (''set-cookie'',
                                   destroySession Verification verifySession)]
                        in (Inr (redirectWithToast
                                   (safeRedirect e (redirectTo_p data))
                                   (Toast None ''Welcome'' ''Thanks for signing up!'')
                                   hs),
                            d')))))"

section \<open>Resetting a password\<close>

definition requireResetPasswordUsername :: "env \<Rightarrow> db \<Rightarrow> request \<Rightarrow> thrown + string" where
  "requireResetPasswordUsername e d req =
     (case requireAnonymous e d req of
        Some t \<Rightarrow> Inl t
      | None \<Rightarrow>
          (let verifySession = getSession Verification (cookie req)
           in case verifySession resetPasswordUsernameSessionKey of
                Some (SStr resetPasswordUsername) \<Rightarrow>
                  (if resetPasswordUsername = [] then Inl (Response (redirect ''/login'' []))
                   else Inr resetPasswordUsername)
              | _ \<Rightarrow> Inl (Response (redirect ''/login'' []))))"

definition action_resetPassword :: "env \<Rightarrow> db \<Rightarrow> request \<Rightarrow> (thrown + response) \<times> db" where
  "action_resetPassword e d req =
     (case requireResetPasswordUsername e d req of
        Inl t \<Rightarrow> (Inl t, d)
      | Inr resetPasswordUsername \<Rightarrow>
          (let submission = parseSubmission (formData_req req)
           in case safeParse (PasswordAndConfirmPasswordSchema e (value_sub submission)) of
                Inl iss \<Rightarrow>
                  (Inr (Data (ResultBody (report submission (resolveZodResult iss) [])) 400), d)
              | Inr data \<Rightarrow>
                  (case resetUserPassword e d resetPasswordUsername (password data) of
                     Inl err \<Rightarrow> (Inl (Error err), d)
                   | Inr d' \<Rightarrow>
                       (let verifySession = getSession Verification None
                        in (Inr (redirect ''/login''
                                   [(''set-cookie'', destroySession Verification verifySession)]),
                            d')))))"

section \<open>The profile photo\<close>

definition MAX_SIZE :: nat where
  "MAX_SIZE = 1024 * 1024 * 3"

record imageData =
  contentType_i :: string
  blob_i :: string

datatype photoInput = DeleteInput | SubmitInput jsFile

datatype photoData = DeleteData | SubmitData imageData | NeverData

definition photoFile :: "payload \<Rightarrow> jsFile parse_return" where
  "photoFile fd =
     (case map_of fd ''photoFile'' of
        Some (FileValue f) \<Rightarrow>
          superRefine
            (\<lambda>f. if size_file f \<le> MAX_SIZE then []
                  else [\<lparr> path = [''photoFile''], message = ''Image size must be less than 3MB'' \<rparr>])
            (superRefine
               (\<lambda>f. if 0 < size_file f then []
                     else [\<lparr> path = [''photoFile''], message = ''Image is required'' \<rparr>])
               ([], VALID f))
      | _ \<Rightarrow> ([\<lparr> path = [''photoFile''], message = ''Input not instance of File'' \<rparr>], INVALID))"

definition NewImageSchema :: "payload \<Rightarrow> photoInput parse_return" where
  "NewImageSchema fd = mapParsed SubmitInput (photoFile fd)"

definition PhotoFormSchema :: "payload \<Rightarrow> photoInput parse_return" where
  "PhotoFormSchema fd =
     (case coerceString (map_of fd ''intent'') of
        Some (Text s) \<Rightarrow>
          (if s = ''delete'' then ([], VALID DeleteInput)
           else if s = ''submit'' then NewImageSchema fd
           else ([\<lparr> path = [''intent''], message = ''Invalid discriminator value'' \<rparr>], INVALID))
      | _ \<Rightarrow> ([\<lparr> path = [''intent''], message = ''Invalid discriminator value'' \<rparr>], INVALID))"

text \<open>
  A transform runs on a valid base only; a base with issues is handed on, and the
  parse fails.  The branch of \<open>photoTransform\<close> for an empty file returns
  \<open>z.NEVER\<close>; the refinement of the schema has rejected an empty file before.
\<close>

definition transform :: "('a \<Rightarrow> 'b) \<Rightarrow> 'a parse_return \<Rightarrow> 'b parse_return" where
  "transform f r =
     (case r of
        (iss, VALID v) \<Rightarrow> (iss, VALID (f v))
      | (iss, _) \<Rightarrow> (iss, INVALID))"

definition photoTransform :: "photoInput \<Rightarrow> photoData" where
  "photoTransform data =
     (case data of
        DeleteInput \<Rightarrow> DeleteData
      | SubmitInput f \<Rightarrow>
          (if size_file f \<le> 0 then NeverData
           else SubmitData \<lparr> contentType_i = type_file f, blob_i = blob_file f \<rparr>))"

text \<open>
  \<open>parseFormData\<close> of the multipart parser library, called with the size limit
  \<open>maxFileSize\<close>: a part whose file is larger than the limit makes the parser
  throw \<open>MaxFileSizeExceededError\<close>; otherwise every file part is given to the
  upload handler (a parameter: \<open>file-uploads.server.ts\<close> is not among the
  sources) and kept when the handler returns a value.
\<close>

definition exceeds :: "nat \<Rightarrow> string \<times> formDataEntry \<Rightarrow> bool" where
  "exceeds maxFileSize part =
     (case snd part of FileEntry f \<Rightarrow> maxFileSize < size_file f | StringEntry s \<Rightarrow> False)"

definition handlePart ::
  "(jsFile \<Rightarrow> formDataEntry option) \<Rightarrow> string \<times> formDataEntry \<Rightarrow> (string \<times> formDataEntry) option" where
  "handlePart handler part =
     (case snd part of
        StringEntry s \<Rightarrow> Some part
      | FileEntry f \<Rightarrow> (case handler f of None \<Rightarrow> None | Some v \<Rightarrow> Some (fst part, v)))"

definition parseFormData ::
  "(jsFile \<Rightarrow> formDataEntry option) \<Rightarrow> nat \<Rightarrow> formData \<Rightarrow> thrown + formData" where
  "parseFormData handler maxFileSize parts =
     (if list_ex (exceeds maxFileSize) parts
      then Inl (Error ''MaxFileSizeExceededError'')
      else Inr (List.map_filter (handlePart handler) parts))"

definition deleteMany :: "string \<Rightarrow> db \<Rightarrow> db" where
  "deleteMany userId d = d \<lparr> images := filter (\<lambda>i. userId_image i \<noteq> userId) (images d) \<rparr>"

text \<open>
  \<open>user.update\<close> with a nested \<open>image: { create }\<close>: it fails when the user does
  not exist or already has an image row.
\<close>

definition createImage :: "string \<Rightarrow> imageData option \<Rightarrow> db \<Rightarrow> string + db" where
  "createImage userId img d =
     (case find (\<lambda>u. id_user u = userId) (users d) of
        None \<Rightarrow> Inl ''Record to update not found''
      | Some u \<Rightarrow>
          (case img of
             None \<Rightarrow> Inr d
           | Some i \<Rightarrow>
               (case find (\<lambda>r. userId_image r = userId) (images d) of
                  Some r \<Rightarrow> Inl ''Unique constraint failed''
                | None \<Rightarrow>
                    Inr (d \<lparr> images := images d @
                              [\<lparr> userId_image = userId, contentType = contentType_i i,
                                 blob = blob_i i \<rparr>] \<rparr>))))"

text \<open>A transaction commits the writes of its body together, or none of them.\<close>

definition transaction :: "(db \<Rightarrow> string + db) \<Rightarrow> db \<Rightarrow> (string + unit) \<times> db" where
  "transaction f d = (case f d of Inl err \<Rightarrow> (Inl err, d) | Inr d' \<Rightarrow> (Inr (), d'))"

definition action_photo :: "env \<Rightarrow> db \<Rightarrow> request \<Rightarrow> (thrown + response) \<times> db" where
  "action_photo e d req =
     (case requireUserId e d req of
        Inl t \<Rightarrow> (Inl t, d)
      | Inr userId \<Rightarrow>
          (case parseFormData (uploadHandler e) MAX_SIZE (formData_req req) of
             Inl t \<Rightarrow> (Inl t, d)
           | Inr formData \<Rightarrow>
               (let submission = parseSubmission formData
                in case safeParse
                          (transform photoTransform (PhotoFormSchema (value_sub submission))) of
                     Inl iss \<Rightarrow>
                       (Inr (Data (ResultBody (report submission (resolveZodResult iss) [])) 400),
                        d)
                   | Inr DeleteData \<Rightarrow>
                       (Inl (Response (redirect ''/settings/profile'' [])), deleteMany userId d)
                   | Inr data \<Rightarrow>
                       (let img = (case data of SubmitData i \<Rightarrow> Some i | _ \<Rightarrow> None)
                        in case transaction
                                  (\<lambda>d0. createImage userId img (deleteMany userId d0)) d of
                             (Inl err, d') \<Rightarrow> (Inl (Error err), d')
                           | (Inr u, d') \<Rightarrow>
                               (Inl (Response (redirect ''/settings/profile'' [])), d')))))"

section \<open>Changing and creating a password\<close>

record changePasswordData =
  currentPassword :: string
  newPassword :: string
  confirmNewPassword :: string

definition ChangePasswordForm :: "env \<Rightarrow> payload \<Rightarrow> changePasswordData parse_return" where
  "ChangePasswordForm e fd =
     superRefine
       (\<lambda>data. if confirmNewPassword data \<noteq> newPassword data
                then [\<lparr> path = [''confirmNewPassword''], message = ''The passwords must match'' \<rparr>]
                else [])
       (mapParsed
          (\<lambda>(c, n, cn). \<lparr> currentPassword = c, newPassword = n, confirmNewPassword = cn \<rparr>)
          (both (field (PasswordSchema e) ''currentPassword'' fd)
             (both (field (PasswordSchema e) ''newPassword'' fd)
                (field (PasswordSchema e) ''confirmNewPassword'' fd))))"

text \<open>
  Modelled from the spec: \<open>verifyUserPassword\<close> of \<open>auth.server.ts\<close>, which is not
  among the sources: the password is compared with the stored hash of the user
  (the comparison of the hashing library is the parameter \<open>comparePassword\<close>).
\<close>

definition verifyUserPassword :: "env \<Rightarrow> db \<Rightarrow> string \<Rightarrow> string \<Rightarrow> string option" where
  "verifyUserPassword e d userId pw =
     (case passwords d userId of
        None \<Rightarrow> None
      | Some hash \<Rightarrow> (if comparePassword e pw hash then Some userId else None))"

definition requirePassword :: "db \<Rightarrow> string \<Rightarrow> thrown option" where
  "requirePassword d userId =
     (case passwords d userId of
        None \<Rightarrow> Some (Response (redirect ''/settings/profile/password/create'' []))
      | Some hash \<Rightarrow> None)"

definition requireNoPassword :: "db \<Rightarrow> string \<Rightarrow> thrown option" where
  "requireNoPassword d userId =
     (case passwords d userId of
        Some hash \<Rightarrow> Some (Response (redirect ''/settings/profile/password'' []))
      | None \<Rightarrow> None)"

text \<open>
  \<open>user.update\<close> with a nested \<open>password: { update }\<close> or \<open>password: { create }\<close>:
  the first fails without a password row, the second with one; both fail without
  the user.
\<close>

definition updatePassword :: "string \<Rightarrow> string \<Rightarrow> db \<Rightarrow> string + db" where
  "updatePassword userId hash d =
     (case find (\<lambda>u. id_user u = userId) (users d) of
        None \<Rightarrow> Inl ''Record to update not found''
      | Some u \<Rightarrow>
          (case passwords d userId of
             None \<Rightarrow> Inl ''Record to update not found''
           | Some old \<Rightarrow> Inr (d \<lparr> passwords := (passwords d)(userId \<mapsto> hash) \<rparr>)))"

definition createPassword :: "string \<Rightarrow> string \<Rightarrow> db \<Rightarrow> string + db" where
  "createPassword userId hash d =
     (case find (\<lambda>u. id_user u = userId) (users d) of
        None \<Rightarrow> Inl ''Record to update not found''
      | Some u \<Rightarrow>
          (case passwords d userId of
             Some old \<Rightarrow> Inl ''Unique constraint failed''
           | None \<Rightarrow> Inr (d \<lparr> passwords := (passwords d)(userId \<mapsto> hash) \<rparr>)))"

definition incorrectPassword :: "env \<Rightarrow> db \<Rightarrow> string \<Rightarrow> changePasswordData \<Rightarrow> issue list" where
  "incorrectPassword e d userId data =
     (if currentPassword data \<noteq> [] \<and> newPassword data \<noteq> []
      then (case verifyUserPassword e d userId (currentPassword data) of
              None \<Rightarrow> [\<lparr> path = [''currentPassword''], message = ''Incorrect password.'' \<rparr>]
            | Some u \<Rightarrow> [])
      else [])"

definition action_changePassword :: "env \<Rightarrow> db \<Rightarrow> request \<Rightarrow> (thrown + response) \<times> db" where
  "action_changePassword e d req =
     (case requireUserId e d req of
        Inl t \<Rightarrow> (Inl t, d)
      | Inr userId \<Rightarrow>
          (case requirePassword d userId of
             Some t \<Rightarrow> (Inl t, d)
           | None \<Rightarrow>
               (let submission = parseSubmission (formData_req req)
                in case safeParse
                          (superRefine (incorrectPassword e d userId)
                             (ChangePasswordForm e (value_sub submission))) of
                     Inl iss \<Rightarrow>
                       (Inr (Data (ResultBody
                                     (report submission (resolveZodResult iss)
                                        [''currentPassword'', ''newPassword'',
                                         ''confirmNewPassword'']))
                                  400),
                        d)
                   | Inr data \<Rightarrow>
                       (case updatePassword userId (getPasswordHash e (newPassword data)) d of
                          Inl err \<Rightarrow> (Inl (Error err), d)
                        | Inr d' \<Rightarrow>
                            (Inr (redirectWithToast ''/settings/profile''
                                    (Toast (Some ''success'') ''Password Changed''
                                       ''Your password has been changed.'')
                                    []),
                             d')))))"

text \<open>The create-password route, as written with \<open>parseSubmission\<close> and \<open>report\<close>.\<close>

definition action_createPassword :: "env \<Rightarrow> db \<Rightarrow> request \<Rightarrow> (thrown + response) \<times> db" where
  "action_createPassword e d req =
     (case requireUserId e d req of
        Inl t \<Rightarrow> (Inl t, d)
      | Inr userId \<Rightarrow>
          (case requireNoPassword d userId of
             Some t \<Rightarrow> (Inl t, d)
           | None \<Rightarrow>
               (let submission = parseSubmission (formData_req req)
                in case safeParse (PasswordAndConfirmPasswordSchema e (value_sub submission)) of
                     Inl iss \<Rightarrow>
                       (Inr (Data (ResultBody
                                     (report submission (resolveZodResult iss)
                                        [''password'', ''confirmPassword'']))
                                  400),
                        d)
                   | Inr data \<Rightarrow>
                       (case createPassword userId (getPasswordHash e (password data)) d of
                          Inl err \<Rightarrow> (Inl (Error err), d)
                        | Inr d' \<Rightarrow> (Inr (Redirect ''/settings/profile'' 302 []), d')))))"




section \<open>The validation step of each action\<close>

text \<open>
  The value named \<open>result\<close> in each action, before the write that follows a
  success: \<open>Inl\<close> with the issues when the form is rejected, \<open>Inr\<close> with the data.
\<close>

abbreviation result_onboarding :: "env \<Rightarrow> db \<Rightarrow> request \<Rightarrow> issue list + signupData" where
  "result_onboarding e d req \<equiv>
     safeParse (superRefine (\<lambda>data. usernameTaken d (username_d data))
                  (SignupFormSchema e (value_sub (parseSubmission (formData_req req)))))"

abbreviation result_provider :: "env \<Rightarrow> db \<Rightarrow> request \<Rightarrow> issue list + providerData" where
  "result_provider e d req \<equiv>
     safeParse (superRefine (\<lambda>data. usernameTaken d (username_p data))
                  (SignupFormSchema_provider e (value_sub (parseSubmission (formData_req req)))))"

abbreviation result_password :: "env \<Rightarrow> request \<Rightarrow> issue list + password_pair" where
  "result_password e req \<equiv>
     safeParse (PasswordAndConfirmPasswordSchema e (value_sub (parseSubmission (formData_req req))))"

abbreviation result_changePassword ::
  "env \<Rightarrow> db \<Rightarrow> string \<Rightarrow> request \<Rightarrow> issue list + changePasswordData" where
  "result_changePassword e d userId req \<equiv>
     safeParse (superRefine (incorrectPassword e d userId)
                  (ChangePasswordForm e (value_sub (parseSubmission (formData_req req)))))"

abbreviation result_photo :: "formData \<Rightarrow> issue list + photoData" where
  "result_photo formData \<equiv>
     safeParse (transform photoTransform (PhotoFormSchema (value_sub (parseSubmission formData))))"

definition passwordFields :: "string list" where
  "passwordFields =
     [''password'', ''confirmPassword'', ''currentPassword'', ''newPassword'',
      ''confirmNewPassword'']"

text \<open>The test of the onboarding guard: the session holds a non-empty string under a key.\<close>

definition holdsNonEmptyString :: "session \<Rightarrow> string \<Rightarrow> bool" where
  "holdsNonEmptyString s k = (case s k of Some (SStr v) \<Rightarrow> v \<noteq> [] | _ \<Rightarrow> False)"

section \<open>Example data\<close>

text \<open>
  A small instance of the parameters and of the database, on which the statements
  below are evaluated: field schemas that require an entry of a minimal length, a
  hash that prefixes the password, a one-time code that equals the stored secret.
\<close>

definition example_string :: "string \<Rightarrow> nat \<Rightarrow> fieldSchema" where
  "example_string label n v =
     (case v of
        None \<Rightarrow> ([label @ '' is required''], INVALID)
      | Some (Text s) \<Rightarrow>
          (if length s < n then ([label @ '' is too short''], DIRTY s) else ([], VALID s))
      | Some (FileValue f) \<Rightarrow> ([''Expected string, received object''], INVALID)
      | Some (Array vs) \<Rightarrow> ([''Expected string, received array''], INVALID))"

definition example_PasswordAndConfirm :: "payload \<Rightarrow> password_pair parse_return" where
  "example_PasswordAndConfirm fd =
     superRefine
       (\<lambda>p. if confirmPassword p \<noteq> password p
             then [\<lparr> path = [''confirmPassword''], message = ''The passwords must match'' \<rparr>]
             else [])
       (mapParsed (\<lambda>(p, c). \<lparr> password = p, confirmPassword = c \<rparr>)
          (both (field (example_string ''Password'' 6) ''password'' fd)
             (field (example_string ''Password'' 6) ''confirmPassword'' fd)))"

definition example_session :: "string \<Rightarrow> sessionRec" where
  "example_session username =
     \<lparr> id_session = ''s-'' @ username, userId_session = ''u-'' @ username,
       expirationDate = 1000 \<rparr>"

definition example_signup :: "db \<Rightarrow> signupArgs \<Rightarrow> string + (sessionRec \<times> db)" where
  "example_signup d a =
     Inr (example_session (username_a a),
          d \<lparr> users := users d @
                 [\<lparr> id_user = ''u-'' @ username_a a, email_user = email_a a,
                    username_user = username_a a, name_user = Some (name_a a) \<rparr>],
              passwords := (passwords d)(''u-'' @ username_a a \<mapsto> ''hash:'' @ password_a a),
              sessions := sessions d @ [example_session (username_a a)] \<rparr>)"

definition example_signupWithConnection :: "db \<Rightarrow> connectionArgs \<Rightarrow> string + (sessionRec \<times> db)" where
  "example_signupWithConnection d a =
     Inr (example_session (username_c a),
          d \<lparr> users := users d @
                 [\<lparr> id_user = ''u-'' @ username_c a, email_user = email_c a,
                    username_user = username_c a, name_user = Some (name_c a) \<rparr>],
              sessions := sessions d @ [example_session (username_c a)] \<rparr>)"

definition example_resetUserPassword :: "db \<Rightarrow> string \<Rightarrow> string \<Rightarrow> string + db" where
  "example_resetUserPassword d username pw =
     (case find (\<lambda>u. username_user u = username) (users d) of
        None \<Rightarrow> Inl ''Record to update not found''
      | Some u \<Rightarrow> Inr (d \<lparr> passwords := (passwords d)(id_user u \<mapsto> ''hash:'' @ pw) \<rparr>))"


definition example_env :: env where
  "example_env =
     \<lparr> now = 100,
       UsernameSchema = example_string ''Username'' 3,
       NameSchema = example_string ''Name'' 3,
       PasswordSchema = example_string ''Password'' 6,
       PasswordAndConfirmPasswordSchema = example_PasswordAndConfirm,
       ProviderNameSchema = (\<lambda>p. if p = Some ''github'' then Some ''github'' else None),
       checkHoneypot =
         (\<lambda>fd. case map_of fd ''name__confirm'' of
                  Some (StringEntry (c # cs)) \<Rightarrow>
                    Some (Response (PlainResponse ''Form not submitted properly'' 400))
                | _ \<Rightarrow> None),
       uploadHandler = (\<lambda>f. Some (FileEntry f)),
       getPasswordHash = (\<lambda>pw. ''hash:'' @ pw),
       comparePassword = (\<lambda>pw hash. hash = ''hash:'' @ pw),
       signup = example_signup,
       signupWithConnection = example_signupWithConnection,
       resetUserPassword = example_resetUserPassword,
       safeRedirect = (\<lambda>t. case t of Some (CHR ''/'' # r) \<Rightarrow> CHR ''/'' # r | _ \<Rightarrow> ''/''),
       codeMatches = (\<lambda>v code. code = secret_v v) \<rparr>"

definition alice :: user where
  "alice = \<lparr> id_user = ''u-alice'', email_user = ''alice@example.com'',
             username_user = ''alice'', name_user = Some ''Alice'' \<rparr>"

definition carol :: user where
  "carol = \<lparr> id_user = ''u-carol'', email_user = ''carol@example.com'',
             username_user = ''carol'', name_user = None \<rparr>"

definition example_db :: db where
  "example_db =
     \<lparr> users = [alice, carol],
       passwords = [''u-alice'' \<mapsto> ''hash:oldpassword''],
       images = [\<lparr> userId_image = ''u-alice'', contentType = ''image/png'', blob = ''old'' \<rparr>],
       sessions = [\<lparr> id_session = ''s-alice'', userId_session = ''u-alice'',
                      expirationDate = 500 \<rparr>,
                   \<lparr> id_session = ''s-carol'', userId_session = ''u-carol'',
                      expirationDate = 500 \<rparr>],
       verifications =
         [\<lparr> type_v = ResetPassword, target_v = ''alice'', secret_v = ''123456'',
            algorithm_v = ''SHA256'', period_v = 600, charSet_v = ''0123456789'',
            expiresAt_v = Some 700 \<rparr>] \<rparr>"

definition verifyForm :: "string \<Rightarrow> string \<Rightarrow> formData" where
  "verifyForm target code =
     [(''code'', StringEntry code), (''type'', StringEntry ''reset-password''), (''target'', StringEntry target)]"

definition verifyData :: "string \<Rightarrow> string \<Rightarrow> resultData" where
  "verifyData target code =
     \<lparr> code_rd = code, type_rd = ResetPassword, target_rd = target, redirectTo_rd = None \<rparr>"

text \<open>Requests: anonymous or signed in, with a verification cookie or without.\<close>

definition signedIn :: "string \<Rightarrow> formData \<Rightarrow> request" where
  "signedIn sid fd =
     \<lparr> cookie = Some [Auth \<mapsto> [''sessionId'' \<mapsto> SStr sid]],
       formData_req = fd, provider_param = None \<rparr>"

definition anonymous :: "session \<Rightarrow> formData \<Rightarrow> request" where
  "anonymous verifySession fd =
     \<lparr> cookie = Some [Verification \<mapsto> verifySession],
       formData_req = fd, provider_param = Some ''github'' \<rparr>"

definition onboardingSession :: session where
  "onboardingSession = [''onboardingEmail'' \<mapsto> SStr ''bob@example.com'',
                        ''providerId'' \<mapsto> SStr ''gh-42'']"

definition resetSession :: session where
  "resetSession = [''resetPasswordUsername'' \<mapsto> SStr ''alice'']"

definition signupForm :: "string \<Rightarrow> string \<Rightarrow> formData" where
  "signupForm pw confirm =
     [(''username'', StringEntry ''bob''), (''name'', StringEntry ''Bob''),
      (''agreeToTermsOfServiceAndPrivacyPolicy'', StringEntry ''on''),
      (''remember'', StringEntry ''on''),
      (''password'', StringEntry pw), (''confirmPassword'', StringEntry confirm)]"

definition providerForm :: "string \<Rightarrow> formData" where
  "providerForm username =
     [(''username'', StringEntry username), (''name'', StringEntry ''Bob''),
      (''agreeToTermsOfServiceAndPrivacyPolicy'', StringEntry ''on'')]"

definition passwordForm :: "string \<Rightarrow> string \<Rightarrow> formData" where
  "passwordForm pw confirm = [(''password'', StringEntry pw), (''confirmPassword'', StringEntry confirm)]"

definition changeForm :: "string \<Rightarrow> string \<Rightarrow> string \<Rightarrow> formData" where
  "changeForm current new confirm =
     [(''currentPassword'', StringEntry current), (''newPassword'', StringEntry new),
      (''confirmNewPassword'', StringEntry confirm)]"

definition photoForm :: "nat \<Rightarrow> formData" where
  "photoForm n =
     [(''intent'', StringEntry ''submit''),
      (''photoFile'', FileEntry \<lparr> size_file = n, type_file = ''image/jpeg'', blob_file = ''new'' \<rparr>)]"
section \<open>Properties\<close>

lemma hide_Nil: "hide [] fd = fd"
  by (simp add: hide_def)

lemma report_no_hide:
  "report sub err [] = \<lparr> submission_res = sub, error_res = err \<rparr>"
  by (simp add: report_def hide_Nil)

lemma users_deleteVerification: "users (deleteVerification t target d) = users d"
  by (simp add: deleteVerification_def)

lemma find_deleteVerification:
  "find (\<lambda>v. type_v v = t \<and> target_v v = target)
     (verifications (deleteVerification t target d)) = None"
  by (simp add: deleteVerification_def find_None_iff)

lemma handleVerification_unknown:
  assumes "find (\<lambda>u. email_user u = target_rd rd \<or> username_user u = target_rd rd) (users d) = None"
  shows "handleVerification d sub rd =
           Data (ResultBody
                   \<lparr> submission_res = sub,
                     error_res = Some \<lparr> formErrors = [], fieldErrors = [] \<rparr> \<rparr>)
                400"
  using assms by (simp add: handleVerification_def report_no_hide errorFromObject_def)

text \<open>
  C7.  When the target of a reset-password verification matches a user by email or
  by username, \<open>handleVerification\<close> redirects to \<open>/reset-password\<close> and its
  set-cookie header commits a verification session that holds that user's username
  under \<open>resetPasswordUsername\<close>; and a request with a valid code, completed through
  \<open>validateRequest\<close>, leaves no verification record of the pair.
\<close>

theorem handleVerification_known_target:
  assumes "find (\<lambda>u. email_user u = target_rd rd \<or> username_user u = target_rd rd) (users d) = Some u"
  shows "handleVerification d sub rd =
           Redirect ''/reset-password'' 302
             [(''set-cookie'',
               CommitSession Verification
                 (Map.empty(''resetPasswordUsername'' \<mapsto> SStr (username_user u))) None)]
         \<and> (\<forall>e typeSet fd.
               parseSubmission fd = sub
               \<and> parseVerify typeSet (value_sub sub) = Some rd
               \<and> type_rd rd = ResetPassword
               \<and> isCodeValid e d ResetPassword (target_rd rd) (code_rd rd)
               \<longrightarrow> fst (validateRequest e typeSet d fd) = handleVerification d sub rd
                   \<and> find (\<lambda>v. type_v v = ResetPassword \<and> target_v v = target_rd rd)
                        (verifications (snd (validateRequest e typeSet d fd))) = None)"
proof -
  have resp: "handleVerification d' sub rd =
           Redirect ''/reset-password'' 302
             [(''set-cookie'',
               CommitSession Verification
                 (Map.empty(''resetPasswordUsername'' \<mapsto> SStr (username_user u))) None)]"
    if "users d' = users d" for d'
    using assms that
    by (simp add: handleVerification_def redirect_def commitSession_def getSession_def
        resetPasswordUsernameSessionKey_def)
  have completed: "fst (validateRequest e typeSet d fd) = handleVerification d sub rd
              \<and> find (\<lambda>v. type_v v = ResetPassword \<and> target_v v = target_rd rd)
                   (verifications (snd (validateRequest e typeSet d fd))) = None"
    if "parseSubmission fd = sub" "parseVerify typeSet (value_sub sub) = Some rd"
       "type_rd rd = ResetPassword"
       "isCodeValid e d ResetPassword (target_rd rd) (code_rd rd)"
    for e typeSet fd
    using that resp [of d] resp [of "deleteVerification ResetPassword (target_rd rd) d"]
    by (simp add: validateRequest_def persistent_def users_deleteVerification
        find_deleteVerification)
  show ?thesis
    using resp [of d] completed by simp
qed

subsection \<open>The example data, evaluated\<close>

lemmas zod_defs =
  safeParse_def superRefine_def mapParsed_def both_def field_def coerceString_def
  requiredBoolean_def optionalBoolean_def optionalString_def transform_def invalidType_def

lemmas example_defs =
  example_env_def example_db_def alice_def carol_def example_string_def
  example_PasswordAndConfirm_def example_session_def example_signup_def
  example_signupWithConnection_def example_resetUserPassword_def
  anonymous_def signedIn_def onboardingSession_def resetSession_def signupForm_def
  providerForm_def passwordForm_def changeForm_def photoForm_def

lemma example_getUserId_alice:
  "getUserId example_env example_db (signedIn ''s-alice'' fd) = Some ''u-alice''"
  by (simp add: getUserId_def getSession_def sessionKey_def example_defs)

lemma example_getUserId_carol:
  "getUserId example_env example_db (signedIn ''s-carol'' fd) = Some ''u-carol''"
  by (simp add: getUserId_def getSession_def sessionKey_def example_defs)

lemma example_getUserId_anonymous:
  "getUserId example_env example_db (anonymous s fd) = None"
  by (simp add: getUserId_def getSession_def sessionKey_def example_defs)

lemma example_requireUserId_alice:
  "requireUserId example_env example_db (signedIn ''s-alice'' fd) = Inr ''u-alice''"
  by (simp add: requireUserId_def example_getUserId_alice)

lemma example_requireUserId_carol:
  "requireUserId example_env example_db (signedIn ''s-carol'' fd) = Inr ''u-carol''"
  by (simp add: requireUserId_def example_getUserId_carol)

lemma example_requireAnonymous:
  "requireAnonymous example_env example_db (anonymous s fd) = None"
  by (simp add: requireAnonymous_def example_getUserId_anonymous)

lemma example_requireOnboardingEmail:
  "requireOnboardingEmail example_env example_db (anonymous onboardingSession fd)
     = Inr ''bob@example.com''"
  by (simp add: requireOnboardingEmail_def example_requireAnonymous Let_def)
     (simp add: getSession_def onboardingEmailSessionKey_def anonymous_def onboardingSession_def)

lemma example_requireData:
  "requireData example_env example_db (anonymous onboardingSession fd)
     = Inr \<lparr> email_r = ''bob@example.com'', providerName_r = ''github'',
             providerId_r = ''gh-42'' \<rparr>"
  by (simp add: requireData_def example_requireAnonymous Let_def)
     (simp add: getSession_def onboardingEmailSessionKey_def providerIdKey_def anonymous_def
        onboardingSession_def example_env_def)

lemma example_requireResetPasswordUsername:
  "requireResetPasswordUsername example_env example_db (anonymous resetSession fd) = Inr ''alice''"
  by (simp add: requireResetPasswordUsername_def example_requireAnonymous Let_def)
     (simp add: getSession_def resetPasswordUsernameSessionKey_def anonymous_def resetSession_def)

lemma example_checkHoneypot:
  "checkHoneypot example_env (formData_req (anonymous s (signupForm pw c))) = None"
  by (simp add: example_defs)

lemma example_result_onboarding_mismatch:
  "result_onboarding example_env example_db
     (anonymous onboardingSession (signupForm ''secret123'' ''different''))
   = Inl [\<lparr> path = [''confirmPassword''], message = ''The passwords must match'' \<rparr>]"
  by (simp add: zod_defs SignupFormSchema_def parseSubmission_def toValue_def
      usernameTaken_def example_defs)

lemma example_result_onboarding_ok:
  "result_onboarding example_env example_db
     (anonymous onboardingSession (signupForm ''secret123'' ''secret123''))
   = Inr \<lparr> username_d = ''bob'', name_d = ''Bob'',
           agreeToTermsOfServiceAndPrivacyPolicy_d = True, remember_d = Some True,
           redirectTo_d = None, password_d = ''secret123'',
           confirmPassword_d = ''secret123'' \<rparr>"
  by (simp add: zod_defs SignupFormSchema_def parseSubmission_def toValue_def
      usernameTaken_def example_defs)

lemma example_result_provider_taken:
  "result_provider example_env example_db (anonymous onboardingSession (providerForm ''alice''))
   = Inl [\<lparr> path = [''username''], message = ''A user already exists with this username'' \<rparr>]"
  by (simp add: zod_defs SignupFormSchema_provider_def parseSubmission_def toValue_def
      usernameTaken_def example_defs)

lemma example_result_provider_ok:
  "result_provider example_env example_db (anonymous onboardingSession (providerForm ''bobby''))
   = Inr \<lparr> imageUrl_p = None, username_p = ''bobby'', name_p = ''Bob'',
           agreeToTermsOfServiceAndPrivacyPolicy_p = True, remember_p = None,
           redirectTo_p = None \<rparr>"
  by (simp add: zod_defs SignupFormSchema_provider_def parseSubmission_def toValue_def
      usernameTaken_def example_defs)

lemma example_result_password_short:
  "safeParse (PasswordAndConfirmPasswordSchema example_env
                (value_sub (parseSubmission (passwordForm ''abc'' ''abc''))))
   = Inl [\<lparr> path = [''password''], message = ''Password is too short'' \<rparr>,
          \<lparr> path = [''confirmPassword''], message = ''Password is too short'' \<rparr>]"
  by (simp add: zod_defs parseSubmission_def toValue_def example_defs)

lemma example_result_password_ok:
  "safeParse (PasswordAndConfirmPasswordSchema example_env
                (value_sub (parseSubmission (passwordForm ''secret123'' ''secret123''))))
   = Inr \<lparr> password = ''secret123'', confirmPassword = ''secret123'' \<rparr>"
  by (simp add: zod_defs parseSubmission_def toValue_def example_defs)

lemma example_ChangePasswordForm:
  "ChangePasswordForm example_env
     (value_sub (parseSubmission (changeForm ''wrongpass'' ''newpass1'' ''newpass1'')))
   = ([], VALID \<lparr> currentPassword = ''wrongpass'', newPassword = ''newpass1'',
                   confirmNewPassword = ''newpass1'' \<rparr>)"
  by (simp add: zod_defs ChangePasswordForm_def parseSubmission_def toValue_def example_defs)

lemma example_verifyUserPassword:
  "verifyUserPassword example_env example_db ''u-alice'' ''wrongpass'' = None"
  by (simp add: verifyUserPassword_def example_defs)

lemma example_result_changePassword_wrong:
  "result_changePassword example_env example_db ''u-alice''
     (signedIn ''s-alice'' (changeForm ''wrongpass'' ''newpass1'' ''newpass1''))
   = Inl [\<lparr> path = [''currentPassword''], message = ''Incorrect password.'' \<rparr>]"
proof -
  have fd: "formData_req (signedIn ''s-alice'' (changeForm ''wrongpass'' ''newpass1'' ''newpass1''))
              = changeForm ''wrongpass'' ''newpass1'' ''newpass1''"
    by (simp add: signedIn_def)
  show ?thesis
    unfolding fd example_ChangePasswordForm
    by (simp add: safeParse_def superRefine_def incorrectPassword_def example_verifyUserPassword)
qed

lemma example_result_photo_empty:
  "result_photo (photoForm 0)
   = Inl [\<lparr> path = [''photoFile''], message = ''Image is required'' \<rparr>]"
  by (simp add: zod_defs PhotoFormSchema_def NewImageSchema_def photoFile_def MAX_SIZE_def
      parseSubmission_def toValue_def photoForm_def)

lemma example_parseFormData_small:
  "n \<le> MAX_SIZE \<Longrightarrow>
   parseFormData (uploadHandler example_env) MAX_SIZE (formData_req (signedIn sid (photoForm n)))
     = Inr (photoForm n)"
  by (simp add: parseFormData_def exceeds_def handlePart_def List.map_filter_simps example_defs)

lemma example_parseFormData_large:
  "MAX_SIZE < n \<Longrightarrow>
   parseFormData (uploadHandler example_env) MAX_SIZE (formData_req (signedIn sid (photoForm n)))
     = Inl (Error ''MaxFileSizeExceededError'')"
  by (simp add: parseFormData_def exceeds_def example_defs)

lemma example_parseVerify:
  "parseVerify [Onboarding, ResetPassword] (value_sub (parseSubmission (verifyForm t c)))
     = (if t = [] \<or> c = [] then None else Some (verifyData t c))"
  by (simp add: parseVerify_def parseSubmission_def verifyForm_def verifyData_def
      coerceString_def optionalString_def typeOfString_def toValue_def)

text \<open>
  C1.  The claim asks that a reset-password verification whose target matches no
  user gets status 400 with the field error \<open>code: Invalid code\<close>, the answer to a
  wrong code.  \<open>handleVerification\<close> writes the error under the key
  \<open>fieldError\<close>, which \<open>report\<close> does not read: for the target \<open>alice\<close>, who
  is not among the users, the report has status 400 and no field error, while the
  same target with a wrong code gets \<open>code: Invalid code\<close>.
\<close>

theorem unknown_target_without_field_error:
  "handleVerification (example_db \<lparr> users := [carol] \<rparr>)
       (parseSubmission (verifyForm ''alice'' ''123456'')) (verifyData ''alice'' ''123456'') =
     Data (ResultBody
             \<lparr> submission_res = parseSubmission (verifyForm ''alice'' ''123456''),
               error_res = Some \<lparr> formErrors = [], fieldErrors = [] \<rparr> \<rparr>)
          400
   \<and> fst (validateRequest example_env [Onboarding, ResetPassword]
            (example_db \<lparr> users := [carol] \<rparr>) (verifyForm ''alice'' ''123456'')) =
     Data (ResultBody
             \<lparr> submission_res = parseSubmission (verifyForm ''alice'' ''123456''),
               error_res = Some \<lparr> formErrors = [], fieldErrors = [] \<rparr> \<rparr>)
          400
   \<and> fst (validateRequest example_env [Onboarding, ResetPassword] example_db
            (verifyForm ''alice'' ''000000'')) =
     Data (ResultBody
             \<lparr> submission_res = parseSubmission (verifyForm ''alice'' ''000000''),
               error_res = Some \<lparr> formErrors = [],
                                  fieldErrors = [(''code'', [''Invalid code''])] \<rparr> \<rparr>)
          400"
proof -
  let ?d = "example_db \<lparr> users := [carol] \<rparr>"
  have unknown:
    "find (\<lambda>u. email_user u = target_rd (verifyData ''alice'' ''123456'')
               \<or> username_user u = target_rd (verifyData ''alice'' ''123456'')) (users d') = None"
    if "users d' = [carol]" for d'
    using that by (simp add: verifyData_def carol_def)
  have valid:
    "isCodeValid example_env ?d (type_rd (verifyData ''alice'' ''123456''))
         (target_rd (verifyData ''alice'' ''123456'')) (code_rd (verifyData ''alice'' ''123456''))"
    by (simp add: isCodeValid_def verifyData_def example_db_def example_env_def)
  have mismatch:
    "\<not> isCodeValid example_env example_db (type_rd (verifyData ''alice'' ''000000''))
         (target_rd (verifyData ''alice'' ''000000'')) (code_rd (verifyData ''alice'' ''000000''))"
    by (simp add: isCodeValid_def verifyData_def example_db_def example_env_def)
  have ty: "type_rd (verifyData t c) = ResetPassword" for t c
    by (simp add: verifyData_def)
  have direct: "handleVerification d' (parseSubmission (verifyForm ''alice'' ''123456''))
       (verifyData ''alice'' ''123456'') =
     Data (ResultBody
             \<lparr> submission_res = parseSubmission (verifyForm ''alice'' ''123456''),
               error_res = Some \<lparr> formErrors = [], fieldErrors = [] \<rparr> \<rparr>)
          400"
    if "users d' = [carol]" for d'
    by (rule handleVerification_unknown [OF unknown [OF that]])
  have gone: "users (deleteVerification t target ?d) = [carol]" for t target
    by (simp add: users_deleteVerification)
  have through: "fst (validateRequest example_env [Onboarding, ResetPassword] ?d
                        (verifyForm ''alice'' ''123456'')) =
     Data (ResultBody
             \<lparr> submission_res = parseSubmission (verifyForm ''alice'' ''123456''),
               error_res = Some \<lparr> formErrors = [], fieldErrors = [] \<rparr> \<rparr>)
          400"
    using valid direct [OF gone]
    by (simp add: validateRequest_def example_parseVerify persistent_def ty)
  have wrong: "fst (validateRequest example_env [Onboarding, ResetPassword] example_db
                      (verifyForm ''alice'' ''000000'')) =
     Data (ResultBody
             \<lparr> submission_res = parseSubmission (verifyForm ''alice'' ''000000''),
               error_res = Some \<lparr> formErrors = [],
                                  fieldErrors = [(''code'', [''Invalid code''])] \<rparr> \<rparr>)
          400"
    using mismatch
    by (simp add: validateRequest_def example_parseVerify invalidCode_def report_no_hide)
  show ?thesis
    using direct [of ?d] through wrong by simp
qed

theorem handleVerification_known_target_witness:
  "handleVerification example_db (parseSubmission (verifyForm ''alice'' ''123456''))
       (verifyData ''alice'' ''123456'') =
     Redirect ''/reset-password'' 302
       [(''set-cookie'',
         CommitSession Verification (Map.empty(''resetPasswordUsername'' \<mapsto> SStr ''alice'')) None)]
   \<and> fst (validateRequest example_env [Onboarding, ResetPassword] example_db
            (verifyForm ''alice'' ''123456'')) =
       handleVerification example_db (parseSubmission (verifyForm ''alice'' ''123456''))
         (verifyData ''alice'' ''123456'')
   \<and> find (\<lambda>v. type_v v = ResetPassword \<and> target_v v = ''alice'')
        (verifications (snd (validateRequest example_env [Onboarding, ResetPassword] example_db
            (verifyForm ''alice'' ''123456'')))) = None"
proof -
  have known:
    "find (\<lambda>u. email_user u = target_rd (verifyData ''alice'' ''123456'')
               \<or> username_user u = target_rd (verifyData ''alice'' ''123456''))
       (users example_db) = Some alice"
    by (simp add: verifyData_def example_db_def alice_def carol_def)
  have valid:
    "isCodeValid example_env example_db ResetPassword
         (target_rd (verifyData ''alice'' ''123456'')) (code_rd (verifyData ''alice'' ''123456''))"
    by (simp add: isCodeValid_def verifyData_def example_db_def example_env_def)
  have parsed:
    "parseVerify [Onboarding, ResetPassword]
       (value_sub (parseSubmission (verifyForm ''alice'' ''123456'')))
     = Some (verifyData ''alice'' ''123456'')"
    by (simp add: example_parseVerify)
  have ty: "type_rd (verifyData ''alice'' ''123456'') = ResetPassword"
    and tg: "target_rd (verifyData ''alice'' ''123456'') = ''alice''"
    and un: "username_user alice = ''alice''"
    by (simp_all add: verifyData_def alice_def)
  show ?thesis
    using handleVerification_known_target [OF known,
        of "parseSubmission (verifyForm ''alice'' ''123456'')"] valid parsed ty
    unfolding tg un
    by blast
qed

subsection \<open>A rejected form changes nothing\<close>

lemma action_onboarding_rejected:
  assumes "requireOnboardingEmail e d req = Inr email"
    and "checkHoneypot e (formData_req req) = None"
    and "result_onboarding e d req = Inl iss"
  shows "action_onboarding e d req =
           (Inr (Data (ResultBody (report (parseSubmission (formData_req req))
                                     (resolveZodResult iss) [])) 400), d)"
  using assms by (simp add: action_onboarding_def Let_def)

lemma action_provider_rejected:
  assumes "requireData e d req = Inr rd"
    and "result_provider e d req = Inl iss"
  shows "action_provider e d req =
           (Inr (Data (ResultBody (report (parseSubmission (formData_req req))
                                     (resolveZodResult iss) [])) 400), d)"
  using assms by (simp add: action_provider_def Let_def)

lemma action_resetPassword_rejected:
  assumes "requireResetPasswordUsername e d req = Inr username"
    and "result_password e req = Inl iss"
  shows "action_resetPassword e d req =
           (Inr (Data (ResultBody (report (parseSubmission (formData_req req))
                                     (resolveZodResult iss) [])) 400), d)"
  using assms by (simp add: action_resetPassword_def Let_def)

lemma action_changePassword_rejected:
  assumes "requireUserId e d req = Inr userId"
    and "requirePassword d userId = None"
    and "result_changePassword e d userId req = Inl iss"
  shows "action_changePassword e d req =
           (Inr (Data (ResultBody (report (parseSubmission (formData_req req))
                                     (resolveZodResult iss)
                                     [''currentPassword'', ''newPassword'',
                                      ''confirmNewPassword''])) 400), d)"
  using assms by (simp add: action_changePassword_def Let_def)

lemma action_createPassword_rejected:
  assumes "requireUserId e d req = Inr userId"
    and "requireNoPassword d userId = None"
    and "result_password e req = Inl iss"
  shows "action_createPassword e d req =
           (Inr (Data (ResultBody (report (parseSubmission (formData_req req))
                                     (resolveZodResult iss)
                                     [''password'', ''confirmPassword''])) 400), d)"
  using assms by (simp add: action_createPassword_def Let_def)

lemma action_photo_rejected:
  assumes "requireUserId e d req = Inr userId"
    and "parseFormData (uploadHandler e) MAX_SIZE (formData_req req) = Inr formData"
    and "result_photo formData = Inl iss"
  shows "action_photo e d req =
           (Inr (Data (ResultBody (report (parseSubmission formData)
                                     (resolveZodResult iss) [])) 400), d)"
  using assms by (simp add: action_photo_def Let_def)

lemma action_photo_parser_throws:
  assumes "requireUserId e d req = Inr userId"
    and "parseFormData (uploadHandler e) MAX_SIZE (formData_req req) = Inl t"
  shows "action_photo e d req = (Inl t, d)"
  using assms by (simp add: action_photo_def)

lemma parseFormData_oversize:
  assumes "(k, FileEntry f) \<in> set parts" and "maxFileSize < size_file f"
  shows "parseFormData handler maxFileSize parts = Inl (Error ''MaxFileSizeExceededError'')"
proof -
  have "exceeds maxFileSize (k, FileEntry f)"
    using assms(2) by (simp add: exceeds_def)
  with assms(1) have "list_ex (exceeds maxFileSize) parts"
    unfolding list_ex_iff by blast
  then show ?thesis
    by (simp add: parseFormData_def)
qed

lemma example_result_photo_large:
  "MAX_SIZE < n \<Longrightarrow>
   result_photo (photoForm n)
   = Inl [\<lparr> path = [''photoFile''], message = ''Image size must be less than 3MB'' \<rparr>]"
  by (simp add: zod_defs PhotoFormSchema_def NewImageSchema_def photoFile_def
      parseSubmission_def toValue_def photoForm_def)

text \<open>
  C2.  The claim asks that every submission that fails the validation of an action
  gets the error report with status 400.  The onboarding, password and reset
  actions do so (lemmas \<open>action_onboarding_rejected\<close> to
  \<open>action_createPassword_rejected\<close>), and the photo action does so for the forms
  its parser returns.  An upload of 4 MiB breaks the size rule of the photo
  schema, which would report \<open>Image size must be less than 3MB\<close>; but the parser,
  called with the same limit, throws before the schema runs, and the action
  returns no report: it throws \<open>MaxFileSizeExceededError\<close>.  The database is
  unchanged.
\<close>

theorem oversize_photo_gets_no_report:
  "result_photo (photoForm 4194304)
     = Inl [\<lparr> path = [''photoFile''], message = ''Image size must be less than 3MB'' \<rparr>]
   \<and> action_photo example_env example_db (signedIn ''s-carol'' (photoForm 4194304))
     = (Inl (Error ''MaxFileSizeExceededError''), example_db)"
proof -
  have large: "MAX_SIZE < (4194304::nat)"
    by (simp add: MAX_SIZE_def)
  show ?thesis
    using example_result_photo_large [OF large]
      action_photo_parser_throws [OF example_requireUserId_carol example_parseFormData_large [OF large]]
    by simp
qed

subsection \<open>The onboarding guard\<close>

lemma requireOnboardingEmail_missing:
  assumes "getUserId e d req = None"
    and "\<not> holdsNonEmptyString (getSession Verification (cookie req)) onboardingEmailSessionKey"
  shows "requireOnboardingEmail e d req = Inl (Response (Redirect ''/signup'' 302 []))"
  using assms
  by (auto simp add: requireOnboardingEmail_def requireAnonymous_def holdsNonEmptyString_def
      redirect_def Let_def split: option.splits sval.splits)

text \<open>
  C6, as amended.  For every request of an anonymous actor whose verification cookie
  does not hold a non-empty string under \<open>onboardingEmail\<close>, the loader and the
  action of \<open>/onboarding\<close> throw a redirect to \<open>/signup\<close>; the action has read no
  form data and the database is untouched.
\<close>

theorem onboarding_requires_email:
  assumes "getUserId e d req = None"
    and "\<not> holdsNonEmptyString (getSession Verification (cookie req)) onboardingEmailSessionKey"
  shows "loader_onboarding e d req = Inl (Response (Redirect ''/signup'' 302 []))
         \<and> action_onboarding e d req = (Inl (Response (Redirect ''/signup'' 302 [])), d)"
  using requireOnboardingEmail_missing [OF assms]
  by (simp add: loader_onboarding_def action_onboarding_def)

theorem onboarding_requires_email_witness:
  "getUserId example_env example_db (anonymous Map.empty (signupForm ''secret123'' ''secret123'')) = None
   \<and> \<not> holdsNonEmptyString
         (getSession Verification
            (cookie (anonymous Map.empty (signupForm ''secret123'' ''secret123''))))
         onboardingEmailSessionKey
   \<and> loader_onboarding example_env example_db
         (anonymous Map.empty (signupForm ''secret123'' ''secret123''))
       = Inl (Response (Redirect ''/signup'' 302 []))
   \<and> action_onboarding example_env example_db
         (anonymous Map.empty (signupForm ''secret123'' ''secret123''))
       = (Inl (Response (Redirect ''/signup'' 302 [])), example_db)"
proof -
  have anon: "getUserId example_env example_db
                (anonymous Map.empty (signupForm ''secret123'' ''secret123'')) = None"
    by (rule example_getUserId_anonymous)
  have missing: "\<not> holdsNonEmptyString
         (getSession Verification
            (cookie (anonymous Map.empty (signupForm ''secret123'' ''secret123''))))
         onboardingEmailSessionKey"
    by (simp add: holdsNonEmptyString_def getSession_def anonymous_def)
  show ?thesis
    using onboarding_requires_email [OF anon missing] anon missing by simp
qed

text \<open>
  The claim C6 as it is stated fails for a signed-in actor: the guard for anonymous
  actors runs first and sends the actor to the home page, not to \<open>/signup\<close>.
\<close>

theorem onboarding_signed_in_counterexample:
  "\<not> holdsNonEmptyString (getSession Verification (cookie (signedIn ''s-alice'' [])))
        onboardingEmailSessionKey
   \<and> loader_onboarding example_env example_db (signedIn ''s-alice'' [])
       = Inl (Response (Redirect ''/'' 302 []))
   \<and> loader_onboarding example_env example_db (signedIn ''s-alice'' [])
       \<noteq> Inl (Response (Redirect ''/signup'' 302 []))
   \<and> action_onboarding example_env example_db (signedIn ''s-alice'' [])
       \<noteq> (Inl (Response (Redirect ''/signup'' 302 [])), example_db)"
proof -
  have g: "requireOnboardingEmail example_env example_db (signedIn ''s-alice'' [])
             = Inl (Response (Redirect ''/'' 302 []))"
    by (simp add: requireOnboardingEmail_def requireAnonymous_def example_getUserId_alice
        redirect_def)
  have m: "\<not> holdsNonEmptyString (getSession Verification (cookie (signedIn ''s-alice'' [])))
        onboardingEmailSessionKey"
    by (simp add: holdsNonEmptyString_def getSession_def signedIn_def)
  show ?thesis
    using g m by (simp add: loader_onboarding_def action_onboarding_def)
qed

subsection \<open>Completing the onboarding and the reset\<close>

lemma safeParse_Inr: "safeParse r = Inr v \<longleftrightarrow> snd r = VALID v"
  by (cases r; cases "snd r") (auto simp add: safeParse_def)

lemma superRefine_VALID: "snd (superRefine f r) = VALID v \<Longrightarrow> snd r = VALID v"
  by (cases r; cases "snd r") (auto simp add: superRefine_def Let_def split: if_splits)

lemma mapParsed_VALID: "snd (mapParsed g r) = VALID v \<Longrightarrow> \<exists>u. snd r = VALID u \<and> v = g u"
  by (cases r; cases "snd r") (auto simp add: mapParsed_def)

lemma both_VALID:
  "snd (both l r) = VALID p \<Longrightarrow> snd l = VALID (fst p) \<and> snd r = VALID (snd p)"
  by (cases l; cases r; cases "snd l"; cases "snd r") (auto simp add: both_def)

lemma optionalBoolean_VALID:
  "snd (optionalBoolean k fd) = VALID b \<Longrightarrow>
   b = (if map_of fd k = Some (Text ''on'') then Some True else None)"
  by (auto simp add: optionalBoolean_def coerceString_def
      split: option.splits formValue.splits if_splits)

lemma remember_onboarding:
  assumes "result_onboarding e d req = Inr data"
  shows "remember_d data =
           (if map_of (value_sub (parseSubmission (formData_req req))) ''remember''
                 = Some (Text ''on'')
            then Some True else None)"
proof -
  let ?fd = "value_sub (parseSubmission (formData_req req))"
  from assms have "snd (superRefine (\<lambda>data. usernameTaken d (username_d data))
                          (SignupFormSchema e ?fd)) = VALID data"
    by (simp add: safeParse_Inr)
  then have "snd (SignupFormSchema e ?fd) = VALID data"
    by (rule superRefine_VALID)
  then obtain u where u: "snd (both
          (both (field (UsernameSchema e) ''username'' ?fd)
             (both (field (NameSchema e) ''name'' ?fd)
                (both (requiredBoolean ''agreeToTermsOfServiceAndPrivacyPolicy'' agreeRequired ?fd)
                   (both (optionalBoolean ''remember'' ?fd)
                      (optionalString ''redirectTo'' ?fd)))))
          (PasswordAndConfirmPasswordSchema e ?fd)) = VALID u"
    and data: "data = (\<lambda>((u, n, a, r, t), p).
          \<lparr> username_d = u, name_d = n, agreeToTermsOfServiceAndPrivacyPolicy_d = a,
            remember_d = r, redirectTo_d = t,
            password_d = password p, confirmPassword_d = confirmPassword p \<rparr>) u"
    unfolding SignupFormSchema_def by (blast dest: mapParsed_VALID)
  obtain un nm ag rm rt p where split: "u = ((un, nm, ag, rm, rt), p)"
    by (metis prod.exhaust)
  from u have "snd (optionalBoolean ''remember'' ?fd) = VALID rm"
    unfolding split by (auto dest!: both_VALID)
  then have "rm = (if map_of ?fd ''remember'' = Some (Text ''on'') then Some True else None)"
    by (rule optionalBoolean_VALID)
  with data split show ?thesis by simp
qed

lemma remember_provider:
  assumes "result_provider e d req = Inr data"
  shows "remember_p data =
           (if map_of (value_sub (parseSubmission (formData_req req))) ''remember''
                 = Some (Text ''on'')
            then Some True else None)"
proof -
  let ?fd = "value_sub (parseSubmission (formData_req req))"
  from assms have "snd (superRefine (\<lambda>data. usernameTaken d (username_p data))
                          (SignupFormSchema_provider e ?fd)) = VALID data"
    by (simp add: safeParse_Inr)
  then have "snd (SignupFormSchema_provider e ?fd) = VALID data"
    by (rule superRefine_VALID)
  then obtain u where u: "snd (both (optionalString ''imageUrl'' ?fd)
          (both (field (UsernameSchema e) ''username'' ?fd)
             (both (field (NameSchema e) ''name'' ?fd)
                (both (requiredBoolean ''agreeToTermsOfServiceAndPrivacyPolicy'' agreeRequired ?fd)
                   (both (optionalBoolean ''remember'' ?fd)
                      (optionalString ''redirectTo'' ?fd)))))) = VALID u"
    and data: "data = (\<lambda>(i, u, n, a, r, t).
          \<lparr> imageUrl_p = i, username_p = u, name_p = n,
            agreeToTermsOfServiceAndPrivacyPolicy_p = a, remember_p = r, redirectTo_p = t \<rparr>) u"
    unfolding SignupFormSchema_provider_def by (blast dest: mapParsed_VALID)
  obtain im un nm ag rm rt where split: "u = (im, un, nm, ag, rm, rt)"
    by (metis prod.exhaust)
  from u have "snd (optionalBoolean ''remember'' ?fd) = VALID rm"
    unfolding split by (auto dest!: both_VALID)
  then have "rm = (if map_of ?fd ''remember'' = Some (Text ''on'') then Some True else None)"
    by (rule optionalBoolean_VALID)
  with data split show ?thesis by simp
qed

lemma action_onboarding_accepted:
  assumes "requireOnboardingEmail e d req = Inr email"
    and "checkHoneypot e (formData_req req) = None"
    and "result_onboarding e d req = Inr data"
    and "signup e d \<lparr> email_a = email, username_a = username_d data,
                      name_a = name_d data, password_a = password_d data \<rparr> = Inr (session, d')"
  shows "action_onboarding e d req =
           (Inr (Redirect (safeRedirect e (redirectTo_d data)) 302
                   [(''set-cookie'',
                     CommitSession Auth
                       ((getSession Auth (cookie req))(sessionKey \<mapsto> SStr (id_session session)))
                       (if remember_d data = Some True
                        then Some (expirationDate session) else None)),
                    (''set-cookie'', DestroySession Verification),
                    (''set-cookie'',
                     ToastCookie (Toast None ''Welcome'' ''Thanks for signing up!''))]),
            d')"
  using assms
  by (simp add: action_onboarding_def Let_def redirectWithToast_def commitSession_def
      destroySession_def truthy_def)

lemma action_provider_accepted:
  assumes "requireData e d req = Inr rd"
    and "result_provider e d req = Inr data"
    and "signupWithConnection e d
           \<lparr> email_c = email_r rd, username_c = username_p data, name_c = name_p data,
             providerId_c = providerId_r rd, providerName_c = providerName_r rd,
             imageUrl_c = imageUrl_p data \<rparr> = Inr (session, d')"
  shows "action_provider e d req =
           (Inr (Redirect (safeRedirect e (redirectTo_p data)) 302
                   [(''set-cookie'',
                     CommitSession Auth
                       ((getSession Auth (cookie req))(sessionKey \<mapsto> SStr (id_session session)))
                       (if remember_p data = Some True
                        then Some (expirationDate session) else None)),
                    (''set-cookie'', DestroySession Verification),
                    (''set-cookie'',
                     ToastCookie (Toast None ''Welcome'' ''Thanks for signing up!''))]),
            d')"
  using assms
  by (simp add: action_provider_def Let_def redirectWithToast_def commitSession_def
      destroySession_def truthy_def)

lemma action_resetPassword_accepted:
  assumes "requireResetPasswordUsername e d req = Inr username"
    and "result_password e req = Inr data"
    and "resetUserPassword e d username (password data) = Inr d'"
  shows "action_resetPassword e d req =
           (Inr (Redirect ''/login'' 302 [(''set-cookie'', DestroySession Verification)]), d')"
  using assms
  by (simp add: action_resetPassword_def Let_def redirect_def destroySession_def)

text \<open>
  C8.  When the onboarding completes, by the plain signup or through a provider, the
  first set-cookie header commits the auth session, which holds the id of the new
  session; the cookie carries the expiration date of that persisted session when the
  \<open>remember\<close> checkbox was sent (the entry is \<open>on\<close>), and no expiry otherwise.
\<close>

theorem remember_controls_cookie_expiry:
  "(requireOnboardingEmail e d req = Inr email \<and> checkHoneypot e (formData_req req) = None
      \<and> result_onboarding e d req = Inr data
      \<and> signup e d \<lparr> email_a = email, username_a = username_d data,
                       name_a = name_d data, password_a = password_d data \<rparr> = Inr (session, d')
    \<longrightarrow> action_onboarding e d req =
          (Inr (Redirect (safeRedirect e (redirectTo_d data)) 302
                  [(''set-cookie'',
                    CommitSession Auth
                      ((getSession Auth (cookie req))(sessionKey \<mapsto> SStr (id_session session)))
                      (if map_of (value_sub (parseSubmission (formData_req req))) ''remember''
                            = Some (Text ''on'')
                       then Some (expirationDate session) else None)),
                   (''set-cookie'', DestroySession Verification),
                   (''set-cookie'',
                    ToastCookie (Toast None ''Welcome'' ''Thanks for signing up!''))]),
           d'))
   \<and> (requireData e d req = Inr rd \<and> result_provider e d req = Inr pdata
      \<and> signupWithConnection e d
           \<lparr> email_c = email_r rd, username_c = username_p pdata, name_c = name_p pdata,
             providerId_c = providerId_r rd, providerName_c = providerName_r rd,
             imageUrl_c = imageUrl_p pdata \<rparr> = Inr (psession, pd')
    \<longrightarrow> action_provider e d req =
          (Inr (Redirect (safeRedirect e (redirectTo_p pdata)) 302
                  [(''set-cookie'',
                    CommitSession Auth
                      ((getSession Auth (cookie req))(sessionKey \<mapsto> SStr (id_session psession)))
                      (if map_of (value_sub (parseSubmission (formData_req req))) ''remember''
                            = Some (Text ''on'')
                       then Some (expirationDate psession) else None)),
                   (''set-cookie'', DestroySession Verification),
                   (''set-cookie'',
                    ToastCookie (Toast None ''Welcome'' ''Thanks for signing up!''))]),
           pd'))"
proof (intro conjI impI)
  assume a: "requireOnboardingEmail e d req = Inr email \<and> checkHoneypot e (formData_req req) = None
      \<and> result_onboarding e d req = Inr data
      \<and> signup e d \<lparr> email_a = email, username_a = username_d data,
                       name_a = name_d data, password_a = password_d data \<rparr> = Inr (session, d')"
  then have r: "remember_d data =
           (if map_of (value_sub (parseSubmission (formData_req req))) ''remember''
                 = Some (Text ''on'')
            then Some True else None)"
    using remember_onboarding by blast
  from a have "action_onboarding e d req =
           (Inr (Redirect (safeRedirect e (redirectTo_d data)) 302
                   [(''set-cookie'',
                     CommitSession Auth
                       ((getSession Auth (cookie req))(sessionKey \<mapsto> SStr (id_session session)))
                       (if remember_d data = Some True
                        then Some (expirationDate session) else None)),
                    (''set-cookie'', DestroySession Verification),
                    (''set-cookie'',
                     ToastCookie (Toast None ''Welcome'' ''Thanks for signing up!''))]),
            d')"
    using action_onboarding_accepted by blast
  then show "action_onboarding e d req =
          (Inr (Redirect (safeRedirect e (redirectTo_d data)) 302
                  [(''set-cookie'',
                    CommitSession Auth
                      ((getSession Auth (cookie req))(sessionKey \<mapsto> SStr (id_session session)))
                      (if map_of (value_sub (parseSubmission (formData_req req))) ''remember''
                            = Some (Text ''on'')
                       then Some (expirationDate session) else None)),
                   (''set-cookie'', DestroySession Verification),
                   (''set-cookie'',
                    ToastCookie (Toast None ''Welcome'' ''Thanks for signing up!''))]),
           d')"
    unfolding r by simp
next
  assume a: "requireData e d req = Inr rd \<and> result_provider e d req = Inr pdata
      \<and> signupWithConnection e d
           \<lparr> email_c = email_r rd, username_c = username_p pdata, name_c = name_p pdata,
             providerId_c = providerId_r rd, providerName_c = providerName_r rd,
             imageUrl_c = imageUrl_p pdata \<rparr> = Inr (psession, pd')"
  then have r: "remember_p pdata =
           (if map_of (value_sub (parseSubmission (formData_req req))) ''remember''
                 = Some (Text ''on'')
            then Some True else None)"
    using remember_provider by blast
  from a have "action_provider e d req =
           (Inr (Redirect (safeRedirect e (redirectTo_p pdata)) 302
                   [(''set-cookie'',
                     CommitSession Auth
                       ((getSession Auth (cookie req))(sessionKey \<mapsto> SStr (id_session psession)))
                       (if remember_p pdata = Some True
                        then Some (expirationDate psession) else None)),
                    (''set-cookie'', DestroySession Verification),
                    (''set-cookie'',
                     ToastCookie (Toast None ''Welcome'' ''Thanks for signing up!''))]),
            pd')"
    using action_provider_accepted by blast
  then show "action_provider e d req =
          (Inr (Redirect (safeRedirect e (redirectTo_p pdata)) 302
                  [(''set-cookie'',
                    CommitSession Auth
                      ((getSession Auth (cookie req))(sessionKey \<mapsto> SStr (id_session psession)))
                      (if map_of (value_sub (parseSubmission (formData_req req))) ''remember''
                            = Some (Text ''on'')
                       then Some (expirationDate psession) else None)),
                   (''set-cookie'', DestroySession Verification),
                   (''set-cookie'',
                    ToastCookie (Toast None ''Welcome'' ''Thanks for signing up!''))]),
           pd')"
    unfolding r by simp
qed

text \<open>
  C9.  The redirect that completes the onboarding signup, the provider onboarding
  or the password reset carries a set-cookie header made by \<open>destroySession\<close> on
  the verification store.
\<close>

theorem completion_destroys_verification_session:
  "(requireOnboardingEmail e d req = Inr email \<and> checkHoneypot e (formData_req req) = None
      \<and> result_onboarding e d req = Inr data
      \<and> signup e d \<lparr> email_a = email, username_a = username_d data,
                       name_a = name_d data, password_a = password_d data \<rparr> = Inr (session, d')
    \<longrightarrow> (\<exists>url hs. action_onboarding e d req = (Inr (Redirect url 302 hs), d')
           \<and> (''set-cookie'', destroySession Verification (getSession Verification None))
               \<in> set hs))
   \<and> (requireData e d req = Inr rd \<and> result_provider e d req = Inr pdata
      \<and> signupWithConnection e d
           \<lparr> email_c = email_r rd, username_c = username_p pdata, name_c = name_p pdata,
             providerId_c = providerId_r rd, providerName_c = providerName_r rd,
             imageUrl_c = imageUrl_p pdata \<rparr> = Inr (psession, pd')
    \<longrightarrow> (\<exists>url hs. action_provider e d req = (Inr (Redirect url 302 hs), pd')
           \<and> (''set-cookie'',
               destroySession Verification (getSession Verification (cookie req))) \<in> set hs))
   \<and> (requireResetPasswordUsername e d req = Inr username \<and> result_password e req = Inr pw
      \<and> resetUserPassword e d username (password pw) = Inr rd'
    \<longrightarrow> action_resetPassword e d req =
          (Inr (Redirect ''/login'' 302
                  [(''set-cookie'',
                    destroySession Verification (getSession Verification None))]), rd'))"
  using action_onboarding_accepted [of e d req email data session d']
    action_provider_accepted [of e d req rd pdata psession pd']
    action_resetPassword_accepted [of e d req username pw rd']
  by (simp add: destroySession_def)

lemma example_signup_bob:
  "\<exists>d'. signup example_env example_db
           \<lparr> email_a = ''bob@example.com'', username_a = ''bob'', name_a = ''Bob'',
             password_a = ''secret123'' \<rparr> = Inr (example_session ''bob'', d')"
  by (simp add: example_env_def example_signup_def)

lemma example_signup_bobby:
  "\<exists>d'. signupWithConnection example_env example_db
           \<lparr> email_c = ''bob@example.com'', username_c = ''bobby'', name_c = ''Bob'',
             providerId_c = ''gh-42'', providerName_c = ''github'', imageUrl_c = None \<rparr>
         = Inr (example_session ''bobby'', d')"
  by (simp add: example_env_def example_signupWithConnection_def)

lemma example_reset_alice:
  "\<exists>d'. resetUserPassword example_env example_db ''alice'' ''secret123'' = Inr d'"
  by (simp add: example_env_def example_resetUserPassword_def example_db_def alice_def)

lemma example_no_auth_cookie: "getSession Auth (cookie (anonymous s fd)) = Map.empty"
  by (simp add: getSession_def anonymous_def)

lemma example_formData_anonymous: "formData_req (anonymous s fd) = fd"
  by (simp add: anonymous_def)

theorem remember_controls_cookie_expiry_witness:
  "fst (action_onboarding example_env example_db
          (anonymous onboardingSession (signupForm ''secret123'' ''secret123''))) =
     Inr (Redirect ''/'' 302
            [(''set-cookie'',
              CommitSession Auth (Map.empty(''sessionId'' \<mapsto> SStr ''s-bob'')) (Some 1000)),
             (''set-cookie'', DestroySession Verification),
             (''set-cookie'', ToastCookie (Toast None ''Welcome'' ''Thanks for signing up!''))])
   \<and> fst (action_provider example_env example_db
          (anonymous onboardingSession (providerForm ''bobby''))) =
     Inr (Redirect ''/'' 302
            [(''set-cookie'',
              CommitSession Auth (Map.empty(''sessionId'' \<mapsto> SStr ''s-bobby'')) None),
             (''set-cookie'', DestroySession Verification),
             (''set-cookie'', ToastCookie (Toast None ''Welcome'' ''Thanks for signing up!''))])"
proof -
  let ?req = "anonymous onboardingSession (signupForm ''secret123'' ''secret123'')"
  let ?preq = "anonymous onboardingSession (providerForm ''bobby'')"
  obtain d1 where s1: "signup example_env example_db
           \<lparr> email_a = ''bob@example.com'', username_a = ''bob'', name_a = ''Bob'',
             password_a = ''secret123'' \<rparr> = Inr (example_session ''bob'', d1)"
    using example_signup_bob by blast
  obtain d2 where s2: "signupWithConnection example_env example_db
           \<lparr> email_c = ''bob@example.com'', username_c = ''bobby'', name_c = ''Bob'',
             providerId_c = ''gh-42'', providerName_c = ''github'', imageUrl_c = None \<rparr>
         = Inr (example_session ''bobby'', d2)"
    using example_signup_bobby by blast
  have on: "map_of (value_sub (parseSubmission (signupForm ''secret123'' ''secret123''))) ''remember''
              = Some (Text ''on'')"
    by (simp add: parseSubmission_def signupForm_def toValue_def)
  have off: "map_of (value_sub (parseSubmission (providerForm ''bobby''))) ''remember'' = None"
    by (simp add: parseSubmission_def providerForm_def toValue_def)
  have home: "safeRedirect example_env None = ''/''"
    by (simp add: example_env_def)
  have a1: "action_onboarding example_env example_db ?req =
          (Inr (Redirect ''/'' 302
                  [(''set-cookie'',
                    CommitSession Auth (Map.empty(''sessionId'' \<mapsto> SStr ''s-bob'')) (Some 1000)),
                   (''set-cookie'', DestroySession Verification),
                   (''set-cookie'',
                    ToastCookie (Toast None ''Welcome'' ''Thanks for signing up!''))]),
           d1)"
    using remember_controls_cookie_expiry
      [where e = example_env and d = example_db and req = ?req and email = "''bob@example.com''"
         and data = "\<lparr> username_d = ''bob'', name_d = ''Bob'',
           agreeToTermsOfServiceAndPrivacyPolicy_d = True, remember_d = Some True,
           redirectTo_d = None, password_d = ''secret123'',
           confirmPassword_d = ''secret123'' \<rparr>"
         and session = "example_session ''bob''" and d' = d1]
      example_requireOnboardingEmail [of "signupForm ''secret123'' ''secret123''"]
      example_checkHoneypot [of onboardingSession "''secret123''" "''secret123''"]
      example_result_onboarding_ok s1 on home
    by (simp add: example_no_auth_cookie example_formData_anonymous sessionKey_def
        example_session_def)
  have a2: "action_provider example_env example_db ?preq =
          (Inr (Redirect ''/'' 302
                  [(''set-cookie'',
                    CommitSession Auth (Map.empty(''sessionId'' \<mapsto> SStr ''s-bobby'')) None),
                   (''set-cookie'', DestroySession Verification),
                   (''set-cookie'',
                    ToastCookie (Toast None ''Welcome'' ''Thanks for signing up!''))]),
           d2)"
    using remember_controls_cookie_expiry
      [where e = example_env and d = example_db and req = ?preq
         and rd = "\<lparr> email_r = ''bob@example.com'', providerName_r = ''github'',
             providerId_r = ''gh-42'' \<rparr>"
         and pdata = "\<lparr> imageUrl_p = None, username_p = ''bobby'', name_p = ''Bob'',
           agreeToTermsOfServiceAndPrivacyPolicy_p = True, remember_p = None,
           redirectTo_p = None \<rparr>"
         and psession = "example_session ''bobby''" and pd' = d2]
      example_requireData [of "providerForm ''bobby''"]
      example_result_provider_ok s2 off home
    by (simp add: example_no_auth_cookie example_formData_anonymous sessionKey_def
        example_session_def)
  show ?thesis
    using a1 a2 by simp
qed

theorem completion_destroys_verification_session_witness:
  "(case fst (action_onboarding example_env example_db
                (anonymous onboardingSession (signupForm ''secret123'' ''secret123''))) of
      Inr (Redirect url st hs) \<Rightarrow> (''set-cookie'', DestroySession Verification) \<in> set hs
    | _ \<Rightarrow> False)
   \<and> (case fst (action_provider example_env example_db
                (anonymous onboardingSession (providerForm ''bobby''))) of
      Inr (Redirect url st hs) \<Rightarrow> (''set-cookie'', DestroySession Verification) \<in> set hs
    | _ \<Rightarrow> False)
   \<and> fst (action_resetPassword example_env example_db
            (anonymous resetSession (passwordForm ''secret123'' ''secret123''))) =
       Inr (Redirect ''/login'' 302 [(''set-cookie'', DestroySession Verification)])"
proof -
  let ?req = "anonymous onboardingSession (signupForm ''secret123'' ''secret123'')"
  let ?preq = "anonymous onboardingSession (providerForm ''bobby'')"
  let ?rreq = "anonymous resetSession (passwordForm ''secret123'' ''secret123'')"
  obtain d1 where s1: "signup example_env example_db
           \<lparr> email_a = ''bob@example.com'', username_a = ''bob'', name_a = ''Bob'',
             password_a = ''secret123'' \<rparr> = Inr (example_session ''bob'', d1)"
    using example_signup_bob by blast
  obtain d2 where s2: "signupWithConnection example_env example_db
           \<lparr> email_c = ''bob@example.com'', username_c = ''bobby'', name_c = ''Bob'',
             providerId_c = ''gh-42'', providerName_c = ''github'', imageUrl_c = None \<rparr>
         = Inr (example_session ''bobby'', d2)"
    using example_signup_bobby by blast
  obtain d3 where s3:
    "resetUserPassword example_env example_db ''alice'' ''secret123'' = Inr d3"
    using example_reset_alice by blast
  have c1: "\<exists>url hs. action_onboarding example_env example_db ?req = (Inr (Redirect url 302 hs), d1)
           \<and> (''set-cookie'', destroySession Verification (getSession Verification None))
               \<in> set hs"
    using completion_destroys_verification_session
      [where e = example_env and d = example_db and req = ?req and email = "''bob@example.com''"
         and data = "\<lparr> username_d = ''bob'', name_d = ''Bob'',
           agreeToTermsOfServiceAndPrivacyPolicy_d = True, remember_d = Some True,
           redirectTo_d = None, password_d = ''secret123'',
           confirmPassword_d = ''secret123'' \<rparr>"
         and session = "example_session ''bob''" and d' = d1]
      example_requireOnboardingEmail [of "signupForm ''secret123'' ''secret123''"]
      example_checkHoneypot [of onboardingSession "''secret123''" "''secret123''"]
      example_result_onboarding_ok s1
    by simp
  have c2: "\<exists>url hs. action_provider example_env example_db ?preq = (Inr (Redirect url 302 hs), d2)
           \<and> (''set-cookie'',
               destroySession Verification (getSession Verification (cookie ?preq))) \<in> set hs"
    using completion_destroys_verification_session
      [where e = example_env and d = example_db and req = ?preq
         and rd = "\<lparr> email_r = ''bob@example.com'', providerName_r = ''github'',
             providerId_r = ''gh-42'' \<rparr>"
         and pdata = "\<lparr> imageUrl_p = None, username_p = ''bobby'', name_p = ''Bob'',
           agreeToTermsOfServiceAndPrivacyPolicy_p = True, remember_p = None,
           redirectTo_p = None \<rparr>"
         and psession = "example_session ''bobby''" and pd' = d2]
      example_requireData [of "providerForm ''bobby''"]
      example_result_provider_ok s2
    by simp
  have c3: "action_resetPassword example_env example_db ?rreq =
          (Inr (Redirect ''/login'' 302
                  [(''set-cookie'',
                    destroySession Verification (getSession Verification None))]), d3)"
    using completion_destroys_verification_session
      [where e = example_env and d = example_db and req = ?rreq and username = "''alice''"
         and pw = "\<lparr> password = ''secret123'', confirmPassword = ''secret123'' \<rparr>"
         and rd' = d3]
      example_requireResetPasswordUsername [of "passwordForm ''secret123'' ''secret123''"]
      example_result_password_ok s3
    by (simp add: example_formData_anonymous)
  from c1 c2 c3 show ?thesis
    by (auto simp add: destroySession_def)
qed

subsection \<open>Replacing the profile photo\<close>

lemma requireUserId_user:
  assumes "requireUserId e d req = Inr userId"
  shows "\<exists>u. find (\<lambda>u. id_user u = userId) (users d) = Some u"
proof -
  from assms have "find (\<lambda>u. id_user u = userId) (users d) \<noteq> None"
    by (auto simp add: requireUserId_def getUserId_def find_None_iff find_Some_iff
        split: option.splits sval.splits) (metis nth_mem)
  then show ?thesis by auto
qed

lemma photoFile_checked:
  assumes "map_of fd ''photoFile'' = Some (FileValue f)"
  shows "photoFile fd =
           (if size_file f = 0
            then ([\<lparr> path = [''photoFile''], message = ''Image is required'' \<rparr>], DIRTY f)
            else if MAX_SIZE < size_file f
            then ([\<lparr> path = [''photoFile''], message = ''Image size must be less than 3MB'' \<rparr>],
                  DIRTY f)
            else ([], VALID f))"
  using assms by (simp add: photoFile_def superRefine_def MAX_SIZE_def)

lemma result_photo_submit:
  assumes "map_of (value_sub (parseSubmission formData)) ''intent'' = Some (Text ''submit'')"
    and "map_of (value_sub (parseSubmission formData)) ''photoFile'' = Some (FileValue f)"
  shows "result_photo formData =
           (if size_file f = 0
            then Inl [\<lparr> path = [''photoFile''], message = ''Image is required'' \<rparr>]
            else if MAX_SIZE < size_file f
            then Inl [\<lparr> path = [''photoFile''], message = ''Image size must be less than 3MB'' \<rparr>]
            else Inr (SubmitData \<lparr> contentType_i = type_file f, blob_i = blob_file f \<rparr>))"
  using assms
  by (simp add: PhotoFormSchema_def NewImageSchema_def photoFile_checked [OF assms(2)]
      coerceString_def mapParsed_def transform_def safeParse_def photoTransform_def)

lemma no_image_after_deleteMany:
  "find (\<lambda>r. userId_image r = userId) (images (deleteMany userId d)) = None"
  by (simp add: deleteMany_def find_None_iff)

lemma replace_image:
  assumes "find (\<lambda>u. id_user u = userId) (users d) = Some u"
  shows "transaction (\<lambda>d0. createImage userId (Some i) (deleteMany userId d0)) d =
           (Inr (),
            d \<lparr> images := filter (\<lambda>r. userId_image r \<noteq> userId) (images d) @
                    [\<lparr> userId_image = userId, contentType = contentType_i i,
                       blob = blob_i i \<rparr>] \<rparr>)"
proof -
  have users: "users (deleteMany userId d) = users d"
    by (simp add: deleteMany_def)
  show ?thesis
    using assms
    by (simp add: transaction_def createImage_def users no_image_after_deleteMany)
       (simp add: deleteMany_def)
qed

lemma photo_submit_within_limit:
  assumes "requireUserId e d req = Inr userId"
    and "parseFormData (uploadHandler e) MAX_SIZE (formData_req req) = Inr formData"
    and "map_of (value_sub (parseSubmission formData)) ''intent'' = Some (Text ''submit'')"
    and "map_of (value_sub (parseSubmission formData)) ''photoFile'' = Some (FileValue f)"
  shows "(size_file f = 0
          \<longrightarrow> (\<exists>r. action_photo e d req = (Inr (Data (ResultBody r) 400), d)))
       \<and> (0 < size_file f \<and> size_file f \<le> 3 * 1024 * 1024
          \<longrightarrow> action_photo e d req =
                (Inl (Response (Redirect ''/settings/profile'' 302 [])),
                 d \<lparr> images := filter (\<lambda>r. userId_image r \<noteq> userId) (images d) @
                         [\<lparr> userId_image = userId, contentType = type_file f,
                            blob = blob_file f \<rparr>] \<rparr>))"
proof (intro conjI impI)
  assume "size_file f = 0"
  then obtain iss where "result_photo formData = Inl iss"
    using result_photo_submit [OF assms(3,4)] by auto
  then show "\<exists>r. action_photo e d req = (Inr (Data (ResultBody r) 400), d)"
    using assms(1,2) by (simp add: action_photo_def Let_def)
next
  assume good: "0 < size_file f \<and> size_file f \<le> 3 * 1024 * 1024"
  then have res: "result_photo formData =
      Inr (SubmitData \<lparr> contentType_i = type_file f, blob_i = blob_file f \<rparr>)"
    using result_photo_submit [OF assms(3,4)] by (simp add: MAX_SIZE_def)
  obtain u where u: "find (\<lambda>u. id_user u = userId) (users d) = Some u"
    using requireUserId_user [OF assms(1)] by blast
  show "action_photo e d req =
        (Inl (Response (Redirect ''/settings/profile'' 302 [])),
         d \<lparr> images := filter (\<lambda>r. userId_image r \<noteq> userId) (images d) @
                 [\<lparr> userId_image = userId, contentType = type_file f,
                    blob = blob_file f \<rparr>] \<rparr>)"
    using assms(1,2) res
    by (simp add: action_photo_def Let_def replace_image [OF u] redirect_def)
qed

text \<open>
  C3.  The claim asks that a photo submission with intent \<open>submit\<close> and a file
  larger than \<open>3 * 1024 * 1024\<close> bytes gets status 400.  For an empty file and
  for a file within the limit the action does what the claim says (lemma
  \<open>photo_submit_within_limit\<close>).  For a file of \<open>3 * 1024 * 1024 + 1\<close> bytes the
  action of a signed-in actor returns no response with status 400: the parser,
  given the limit \<open>MAX_SIZE\<close>, throws \<open>MaxFileSizeExceededError\<close> before the
  schema with its rule \<open>Image size must be less than 3MB\<close> is reached.  The
  stored image is unchanged.
\<close>

theorem oversize_submit_throws:
  "requireUserId example_env example_db (signedIn ''s-alice'' (photoForm (3 * 1024 * 1024 + 1)))
     = Inr ''u-alice''
   \<and> map_of (formData_req (signedIn ''s-alice'' (photoForm (3 * 1024 * 1024 + 1)))) ''intent''
     = Some (StringEntry ''submit'')
   \<and> map_of (formData_req (signedIn ''s-alice'' (photoForm (3 * 1024 * 1024 + 1)))) ''photoFile''
     = Some (FileEntry \<lparr> size_file = 3 * 1024 * 1024 + 1, type_file = ''image/jpeg'',
                          blob_file = ''new'' \<rparr>)
   \<and> fst (action_photo example_env example_db
            (signedIn ''s-alice'' (photoForm (3 * 1024 * 1024 + 1))))
     = Inl (Error ''MaxFileSizeExceededError'')
   \<and> images (snd (action_photo example_env example_db
                    (signedIn ''s-alice'' (photoForm (3 * 1024 * 1024 + 1)))))
     = [\<lparr> userId_image = ''u-alice'', contentType = ''image/png'', blob = ''old'' \<rparr>]"
proof -
  have large: "MAX_SIZE < (3 * 1024 * 1024 + 1 :: nat)"
    by (simp add: MAX_SIZE_def)
  have sent: "formData_req (signedIn ''s-alice'' (photoForm n)) = photoForm n" for n
    by (simp add: signedIn_def)
  have act: "action_photo example_env example_db
               (signedIn ''s-alice'' (photoForm (3 * 1024 * 1024 + 1)))
             = (Inl (Error ''MaxFileSizeExceededError''), example_db)"
    by (rule action_photo_parser_throws
          [OF example_requireUserId_alice example_parseFormData_large [OF large]])
  have old: "images example_db
               = [\<lparr> userId_image = ''u-alice'', contentType = ''image/png'', blob = ''old'' \<rparr>]"
    by (simp add: example_db_def)
  show ?thesis
    unfolding act sent
    using example_requireUserId_alice [of "photoForm (3 * 1024 * 1024 + 1)"] old
    by (simp add: photoForm_def sent)
qed

subsection \<open>Changing the password\<close>

lemma groupFieldErrors_snoc:
  "groupFieldErrors (iss @ [i]) acc =
     (if path i = [] then groupFieldErrors iss acc
      else addFieldError (formatPath (path i)) (message i) (groupFieldErrors iss acc))"
  by (induction iss arbitrary: acc) simp_all

lemma map_of_addFieldError:
  "map_of (addFieldError n m acc) k =
     (if k = n then Some ((case map_of acc n of None \<Rightarrow> [] | Some ms \<Rightarrow> ms) @ [m])
      else map_of acc k)"
  by (induction acc) auto

lemma resolveZodResult_snoc_field:
  "resolveZodResult (iss @ [\<lparr> path = [k], message = m \<rparr>]) =
     Some \<lparr> formErrors = map message (filter (\<lambda>i. path i = []) iss),
            fieldErrors = addFieldError k m (groupFieldErrors iss []) \<rparr>"
  by (simp add: resolveZodResult_def groupFieldErrors_snoc)

lemma incorrectPassword_issue:
  assumes "passwords d userId = Some hash"
    and "currentPassword data \<noteq> []" and "newPassword data \<noteq> []"
    and "\<not> comparePassword e (currentPassword data) hash"
  shows "incorrectPassword e d userId data =
           [\<lparr> path = [''currentPassword''], message = ''Incorrect password.'' \<rparr>]"
  using assms by (simp add: incorrectPassword_def verifyUserPassword_def)

lemma result_changePassword_incorrect:
  assumes "ChangePasswordForm e (value_sub (parseSubmission (formData_req req))) = (iss, st)"
    and "st = DIRTY data \<or> st = VALID data"
    and "passwords d userId = Some hash"
    and "currentPassword data \<noteq> []" and "newPassword data \<noteq> []"
    and "\<not> comparePassword e (currentPassword data) hash"
  shows "result_changePassword e d userId req =
           Inl (iss @ [\<lparr> path = [''currentPassword''], message = ''Incorrect password.'' \<rparr>])"
  using assms(2) incorrectPassword_issue [OF assms(3-6)]
  by (auto simp add: assms(1) superRefine_def safeParse_def)

text \<open>
  C5, as amended.  A signed-in actor with a stored password hash submits the
  change-password form; the schema yields the values of the form (its status is
  dirty or valid) with a non-empty \<open>currentPassword\<close> and a non-empty
  \<open>newPassword\<close>, and \<open>currentPassword\<close> does not match the stored hash.  Then the
  action returns status 400; the report has the errors of the schema and, added to
  those of the field \<open>currentPassword\<close>, the error \<open>Incorrect password.\<close>; the
  errors of every other field are the ones of the schema; and the stored hash is
  the one the request found.
\<close>

theorem changePassword_incorrect_current:
  assumes "requireUserId e d req = Inr userId"
    and "passwords d userId = Some hash"
    and "ChangePasswordForm e (value_sub (parseSubmission (formData_req req))) = (iss, st)"
    and "st = DIRTY data \<or> st = VALID data"
    and "currentPassword data \<noteq> []" and "newPassword data \<noteq> []"
    and "\<not> comparePassword e (currentPassword data) hash"
  shows "action_changePassword e d req =
           (Inr (Data (ResultBody
                   (report (parseSubmission (formData_req req))
                      (Some \<lparr> formErrors = map message (filter (\<lambda>i. path i = []) iss),
                              fieldErrors =
                                addFieldError ''currentPassword'' ''Incorrect password.''
                                  (groupFieldErrors iss []) \<rparr>)
                      [''currentPassword'', ''newPassword'', ''confirmNewPassword''])) 400),
            d)
         \<and> map_of (addFieldError ''currentPassword'' ''Incorrect password.''
                     (groupFieldErrors iss [])) ''currentPassword''
             = Some ((case map_of (groupFieldErrors iss []) ''currentPassword'' of
                        None \<Rightarrow> [] | Some ms \<Rightarrow> ms) @ [''Incorrect password.''])
         \<and> (\<forall>k. k \<noteq> ''currentPassword'' \<longrightarrow>
                map_of (addFieldError ''currentPassword'' ''Incorrect password.''
                          (groupFieldErrors iss [])) k
                  = map_of (groupFieldErrors iss []) k)
         \<and> passwords (snd (action_changePassword e d req)) userId = Some hash"
proof -
  have guard: "requirePassword d userId = None"
    using assms(2) by (simp add: requirePassword_def)
  have res: "result_changePassword e d userId req =
           Inl (iss @ [\<lparr> path = [''currentPassword''], message = ''Incorrect password.'' \<rparr>])"
    by (rule result_changePassword_incorrect [OF assms(3,4,2,5,6,7)])
  have act: "action_changePassword e d req =
           (Inr (Data (ResultBody
                   (report (parseSubmission (formData_req req))
                      (Some \<lparr> formErrors = map message (filter (\<lambda>i. path i = []) iss),
                              fieldErrors =
                                addFieldError ''currentPassword'' ''Incorrect password.''
                                  (groupFieldErrors iss []) \<rparr>)
                      [''currentPassword'', ''newPassword'', ''confirmNewPassword''])) 400),
            d)"
    using action_changePassword_rejected [OF assms(1) guard res]
    by (simp add: resolveZodResult_snoc_field)
  show ?thesis
    unfolding act using assms(2) by (simp add: map_of_addFieldError)
qed

theorem changePassword_incorrect_current_witness:
  "action_changePassword example_env example_db
       (signedIn ''s-alice'' (changeForm ''wrongpass'' ''newpass1'' ''newpass1'')) =
     (Inr (Data (ResultBody
                   \<lparr> submission_res = \<lparr> value_sub = [], intent_sub = None \<rparr>,
                     error_res =
                       Some \<lparr> formErrors = [],
                              fieldErrors = [(''currentPassword'', [''Incorrect password.''])] \<rparr> \<rparr>)
                400),
      example_db)
   \<and> passwords (snd (action_changePassword example_env example_db
         (signedIn ''s-alice'' (changeForm ''wrongpass'' ''newpass1'' ''newpass1'')))) ''u-alice''
       = Some ''hash:oldpassword''"
proof -
  let ?req = "signedIn ''s-alice'' (changeForm ''wrongpass'' ''newpass1'' ''newpass1'')"
  have fd: "formData_req ?req = changeForm ''wrongpass'' ''newpass1'' ''newpass1''"
    by (simp add: signedIn_def)
  have stored: "passwords example_db ''u-alice'' = Some ''hash:oldpassword''"
    by (simp add: example_db_def)
  have form: "ChangePasswordForm example_env (value_sub (parseSubmission (formData_req ?req)))
     = ([], VALID \<lparr> currentPassword = ''wrongpass'', newPassword = ''newpass1'',
                     confirmNewPassword = ''newpass1'' \<rparr>)"
    unfolding fd by (rule example_ChangePasswordForm)
  have differs: "\<not> comparePassword example_env
        (currentPassword \<lparr> currentPassword = ''wrongpass'', newPassword = ''newpass1'',
                            confirmNewPassword = ''newpass1'' \<rparr>) ''hash:oldpassword''"
    by (simp add: example_env_def)
  have hidden: "hide [''currentPassword'', ''newPassword'', ''confirmNewPassword'']
                  (value_sub (parseSubmission (changeForm ''wrongpass'' ''newpass1'' ''newpass1'')))
                = []"
    by (simp add: hide_def parseSubmission_def changeForm_def toValue_def)
  have sub: "parseSubmission (changeForm ''wrongpass'' ''newpass1'' ''newpass1'')
               \<lparr> value_sub := [] \<rparr> = \<lparr> value_sub = [], intent_sub = None \<rparr>"
    by (simp add: parseSubmission_def changeForm_def toValue_def)
  show ?thesis
    using changePassword_incorrect_current
      [OF example_requireUserId_alice stored form _ _ _ differs]
    by (simp add: fd report_def hidden sub stored)
qed

text \<open>
  The claim C5 as it is stated fails when the form has no new password: the check
  of the current password is made only when both values are non-empty, so the
  report carries no \<open>Incorrect password.\<close> although the current password does not
  match the stored hash.
\<close>

theorem changePassword_unchecked_counterexample:
  "verifyUserPassword example_env example_db ''u-alice'' ''wrongpass'' = None
   \<and> action_changePassword example_env example_db
       (signedIn ''s-alice'' (changeForm ''wrongpass'' '''' '''')) =
     (Inr (Data (ResultBody
                   \<lparr> submission_res = \<lparr> value_sub = [], intent_sub = None \<rparr>,
                     error_res =
                       Some \<lparr> formErrors = [],
                              fieldErrors =
                                [(''newPassword'', [''Password is required'']),
                                 (''confirmNewPassword'', [''Password is required''])] \<rparr> \<rparr>)
                400),
      example_db)"
proof -
  let ?req = "signedIn ''s-alice'' (changeForm ''wrongpass'' '''' '''')"
  have fd: "formData_req ?req = changeForm ''wrongpass'' '''' ''''"
    by (simp add: signedIn_def)
  have guard: "requirePassword example_db ''u-alice'' = None"
    by (simp add: requirePassword_def example_db_def)
  have res: "result_changePassword example_env example_db ''u-alice'' ?req =
      Inl [\<lparr> path = [''newPassword''], message = ''Password is required'' \<rparr>,
           \<lparr> path = [''confirmNewPassword''], message = ''Password is required'' \<rparr>]"
    unfolding fd
    by (simp add: zod_defs ChangePasswordForm_def parseSubmission_def toValue_def
        example_env_def example_string_def changeForm_def)
  have hidden: "hide [''currentPassword'', ''newPassword'', ''confirmNewPassword'']
                  (value_sub (parseSubmission (changeForm ''wrongpass'' '''' ''''))) = []"
    by (simp add: hide_def parseSubmission_def changeForm_def toValue_def)
  have sub: "parseSubmission (changeForm ''wrongpass'' '''' '''') \<lparr> value_sub := [] \<rparr>
               = \<lparr> value_sub = [], intent_sub = None \<rparr>"
    by (simp add: parseSubmission_def changeForm_def toValue_def)
  show ?thesis
    using action_changePassword_rejected [OF example_requireUserId_alice guard res]
    by (simp add: example_verifyUserPassword fd report_def hidden sub resolveZodResult_def)
qed

subsection \<open>What a report echoes\<close>

lemma echoed_hidden:
  assumes "k \<in> set hideFields"
  shows "echoed (report sub err hideFields) k = None"
  using assms
  by (auto simp add: echoed_def report_def hide_def map_of_eq_None_iff)

lemma echoed_all:
  "echoed (report sub err []) k = map_of (value_sub sub) k"
  by (simp add: echoed_def report_def hide_def)

lemma changePassword_hides_passwords:
  assumes "requireUserId e d req = Inr userId"
    and "requirePassword d userId = None"
    and "result_changePassword e d userId req = Inl iss"
    and "k \<in> {''currentPassword'', ''newPassword'', ''confirmNewPassword''}"
  shows "\<exists>r. action_changePassword e d req = (Inr (Data (ResultBody r) 400), d)
             \<and> echoed r k = None"
  using action_changePassword_rejected [OF assms(1-3)] assms(4)
  by (auto simp add: echoed_hidden)

lemma createPassword_hides_passwords:
  assumes "requireUserId e d req = Inr userId"
    and "requireNoPassword d userId = None"
    and "result_password e req = Inl iss"
    and "k \<in> {''password'', ''confirmPassword''}"
  shows "\<exists>r. action_createPassword e d req = (Inr (Data (ResultBody r) 400), d)
             \<and> echoed r k = None"
  using action_createPassword_rejected [OF assms(1-3)] assms(4)
  by (auto simp add: echoed_hidden)

lemma onboarding_echoes_all:
  assumes "requireOnboardingEmail e d req = Inr email"
    and "checkHoneypot e (formData_req req) = None"
    and "result_onboarding e d req = Inl iss"
  shows "\<exists>r. action_onboarding e d req = (Inr (Data (ResultBody r) 400), d)
             \<and> (\<forall>k. echoed r k = map_of (value_sub (parseSubmission (formData_req req))) k)"
  using action_onboarding_rejected [OF assms] by (simp add: echoed_all)

lemma resetPassword_echoes_all:
  assumes "requireResetPasswordUsername e d req = Inr username"
    and "result_password e req = Inl iss"
  shows "\<exists>r. action_resetPassword e d req = (Inr (Data (ResultBody r) 400), d)
             \<and> (\<forall>k. echoed r k = map_of (value_sub (parseSubmission (formData_req req))) k)"
  using action_resetPassword_rejected [OF assms] by (simp add: echoed_all)

text \<open>
  C4.  The claim asks that no action echoes a submitted password in its error
  report.  The change-password and create-password actions hide the password
  fields; the onboarding signup and the reset-password action pass no
  \<open>hideFields\<close> to \<open>report\<close>, and their reports echo the passwords: a signup with
  the password \<open>secret123\<close> and a different confirmation, and a reset with the too
  short password \<open>abc\<close>, both get status 400 and their passwords back.
\<close>

theorem onboarding_and_reset_echo_passwords:
  "(case fst (action_onboarding example_env example_db
                (anonymous onboardingSession (signupForm ''secret123'' ''different''))) of
      Inr (Data (ResultBody r) st) \<Rightarrow>
        st = 400 \<and> echoed r ''password'' = Some (Text ''secret123'')
        \<and> echoed r ''confirmPassword'' = Some (Text ''different'')
    | _ \<Rightarrow> False)
   \<and> (case fst (action_resetPassword example_env example_db
                (anonymous resetSession (passwordForm ''abc'' ''abc''))) of
      Inr (Data (ResultBody r) st) \<Rightarrow>
        st = 400 \<and> echoed r ''password'' = Some (Text ''abc'')
        \<and> echoed r ''confirmPassword'' = Some (Text ''abc'')
    | _ \<Rightarrow> False)"
proof -
  let ?req = "anonymous onboardingSession (signupForm ''secret123'' ''different'')"
  let ?rreq = "anonymous resetSession (passwordForm ''abc'' ''abc'')"
  have honeypot: "checkHoneypot example_env (formData_req ?req) = None"
    by (rule example_checkHoneypot)
  have short: "result_password example_env ?rreq =
      Inl [\<lparr> path = [''password''], message = ''Password is too short'' \<rparr>,
           \<lparr> path = [''confirmPassword''], message = ''Password is too short'' \<rparr>]"
    using example_result_password_short by (simp add: example_formData_anonymous)
  have sent: "map_of (value_sub (parseSubmission (signupForm ''secret123'' ''different'')))
                ''password'' = Some (Text ''secret123'')"
    "map_of (value_sub (parseSubmission (signupForm ''secret123'' ''different'')))
                ''confirmPassword'' = Some (Text ''different'')"
    "map_of (value_sub (parseSubmission (passwordForm ''abc'' ''abc''))) ''password''
       = Some (Text ''abc'')"
    "map_of (value_sub (parseSubmission (passwordForm ''abc'' ''abc''))) ''confirmPassword''
       = Some (Text ''abc'')"
    by (simp_all add: parseSubmission_def signupForm_def passwordForm_def toValue_def)
  show ?thesis
    using onboarding_echoes_all
      [OF example_requireOnboardingEmail honeypot example_result_onboarding_mismatch]
      resetPassword_echoes_all [OF example_requireResetPasswordUsername short]
    by (auto simp add: example_formData_anonymous sent)
qed

subsection \<open>The two versions of the create-password route\<close>













end
